theory Spec2Isabelle
  imports Main "HOL-Library.Word" "HOL-Library.AList"
begin

section \<open>The two revisions of the gateway\<close>

text \<open>
  The repository holds two revisions of the class \<open>SipGateway\<close>: the file
  \<open>src/server/plugins/sipGateway.js\<close> (the one \<open>signaling-server.js\<close> loads with
  \<open>require('./plugins/sipGateway')\<close>) and the file \<open>src/unnamed/part_000\<close>.  Most methods
  are the same text in both; where they differ, a definition below takes the revision
  as its first argument and follows the text of the revision named.
\<close>

datatype revision = Rev_plugins | Rev_part0

section \<open>Identifiers: \<open>generateCallId\<close>, \<open>generateTag\<close>, \<open>generateBranch\<close>\<close>

text \<open>
  \<open>crypto.randomBytes(n)\<close> returns \<open>n\<close> bytes of the entropy source, which is the
  argument \<open>rnd\<close> here; \<open>toString('hex')\<close> writes every byte as two lower-case
  hexadecimal digits, the high nibble first.
\<close>

type_synonym byte = "8 word"

definition hexdigits :: string where
  "hexdigits = ''0123456789abcdef''"

definition is_hex :: "char \<Rightarrow> bool" where
  "is_hex c = (c \<in> set hexdigits)"

definition randomBytes :: "nat \<Rightarrow> (nat \<Rightarrow> byte) \<Rightarrow> byte list" where
  "randomBytes n rnd = map rnd [0..<n]"

definition hex_of_byte :: "byte \<Rightarrow> string" where
  "hex_of_byte b = [hexdigits ! (unat b div 16), hexdigits ! (unat b mod 16)]"

definition toString_hex :: "byte list \<Rightarrow> string" where
  "toString_hex bs = concat (map hex_of_byte bs)"

text \<open>
  A template literal writes a number in decimal.  \<open>Date.now()\<close> and
  \<open>Math.floor(Math.random() * 1000000)\<close> are non-negative integers far below the
  magnitude at which JavaScript switches to exponent notation.
\<close>

definition digit_char :: "nat \<Rightarrow> char" where
  "digit_char d = ''0123456789'' ! d"

function decimal :: "nat \<Rightarrow> string" where
  "decimal n = (if n < 10 then [digit_char n] else decimal (n div 10) @ [digit_char (n mod 10)])"
  by pat_completeness auto
termination
  by (relation "measure id") auto

declare decimal.simps [simp del]

text \<open>
  \<open>generateCallId\<close>: in \<open>plugins/sipGateway.js\<close> the clock reading \<open>now\<close> followed by
  the random integer \<open>r\<close> (below one million), \<open>@\<close> and the advertised address; in
  \<open>part_000\<close> sixteen random bytes in hexadecimal, \<open>@\<close> and the advertised address.
\<close>

definition generateCallId :: "revision \<Rightarrow> string \<Rightarrow> nat \<Rightarrow> nat \<Rightarrow> (nat \<Rightarrow> byte) \<Rightarrow> string" where
  "generateCallId rv advertiseIP now r rnd =
     (case rv of
        Rev_plugins \<Rightarrow> decimal now @ decimal r @ ''@'' @ advertiseIP
      | Rev_part0 \<Rightarrow> toString_hex (randomBytes 16 rnd) @ ''@'' @ advertiseIP)"

definition generateTag :: "revision \<Rightarrow> (nat \<Rightarrow> byte) \<Rightarrow> string" where
  "generateTag rv rnd =
     (case rv of
        Rev_plugins \<Rightarrow> toString_hex (randomBytes 6 rnd)
      | Rev_part0 \<Rightarrow> toString_hex (randomBytes 8 rnd))"

definition generateBranch :: "(nat \<Rightarrow> byte) \<Rightarrow> string" where
  "generateBranch rnd = ''z9hG4bK'' @ toString_hex (randomBytes 16 rnd)"

text \<open>
  The formats the wire protocol section gives: a call identifier is 32 hexadecimal
  characters, \<open>@\<close> and the advertised address; a branch is \<open>z9hG4bK\<close> and 32
  hexadecimal characters; a tag is 16 hexadecimal characters.
\<close>

definition is_digit :: "char \<Rightarrow> bool" where
  "is_digit c = (c \<in> set ''0123456789'')"

definition callid_format :: "string \<Rightarrow> string \<Rightarrow> bool" where
  "callid_format advertiseIP c =
     (length (take 32 c) = 32 \<and> list_all is_hex (take 32 c) \<and> drop 32 c = ''@'' @ advertiseIP)"

definition branch_format :: "string \<Rightarrow> bool" where
  "branch_format b =
     (take 7 b = ''z9hG4bK'' \<and> length (drop 7 b) = 32 \<and> list_all is_hex (drop 7 b))"

definition tag_format :: "string \<Rightarrow> bool" where
  "tag_format t = (length t = 16 \<and> list_all is_hex t)"

section \<open>Bounded retries: \<open>rtpengineOperationWithRetry\<close> and \<open>initialize\<close>\<close>

text \<open>
  The operation handed to \<open>rtpengineOperationWithRetry\<close> is a closure that sends one
  request to the media relay; \<open>attempt i\<close> is what its call number \<open>i\<close> (from 0) does:
  \<open>Inl e\<close> when it throws \<open>e\<close>, \<open>Inr v\<close> when it returns \<open>v\<close>.  The result is what the
  wrapper returns or throws (\<open>None\<close> when the loop body never runs and the function
  falls off its end), the number of calls made, and the sleeps in milliseconds, in
  order.
\<close>

definition backoff_unit :: "revision \<Rightarrow> nat" where
  "backoff_unit rv = (case rv of Rev_plugins \<Rightarrow> 100 | Rev_part0 \<Rightarrow> 1000)"

function retry_loop ::
  "revision \<Rightarrow> (nat \<Rightarrow> 'e + 'a) \<Rightarrow> nat \<Rightarrow> nat \<Rightarrow> nat list \<Rightarrow> ('e + 'a) option \<times> nat \<times> nat list"
where
  "retry_loop rv attempt retries i sleeps =
     (if i < retries then
        (case attempt i of
           Inr v \<Rightarrow> (Some (Inr v), Suc i, sleeps)
         | Inl e \<Rightarrow>
             if i = retries - 1 then (Some (Inl e), Suc i, sleeps)
             else retry_loop rv attempt retries (Suc i) (sleeps @ [backoff_unit rv * (i + 1)]))
      else (None, i, sleeps))"
  by pat_completeness auto
termination
  by (relation "measure (\<lambda>(rv, attempt, retries, i, sleeps). retries - i)") auto

declare retry_loop.simps [simp del]

definition rtpengineOperationWithRetry ::
  "revision \<Rightarrow> (nat \<Rightarrow> 'e + 'a) \<Rightarrow> ('e + 'a) option \<times> nat \<times> nat list"
where
  "rtpengineOperationWithRetry rv attempt = retry_loop rv attempt 3 0 []"


section \<open>Strings and the regular expressions of the source\<close>

text \<open>
  A JavaScript string is modelled as a \<open>string\<close>: the characters are those with a code
  below 256.  Among them \<open>\s\<close> (and \<open>trim\<close>) takes tab, line feed, vertical tab, form
  feed, carriage return, space and the no-break space; \<open>\d\<close> takes the ten digits.
\<close>

definition is_space :: "char \<Rightarrow> bool" where
  "is_space c = (c \<in> set [CHR 0x09, CHR 0x0A, CHR 0x0B, CHR 0x0C, CHR 0x0D, CHR 0x20, CHR 0xA0])"

definition startsWith :: "string \<Rightarrow> string \<Rightarrow> bool" where
  "startsWith s p = (take (length p) s = p)"

text \<open>
  \<open>split_at_first sub s\<close> finds the first (leftmost) occurrence of \<open>sub\<close> in \<open>s\<close> and
  returns what stands before it and what stands after it.
\<close>

fun split_at_first :: "string \<Rightarrow> string \<Rightarrow> (string \<times> string) option" where
  "split_at_first sub [] = (if sub = [] then Some ([], []) else None)"
| "split_at_first sub (c # s) =
     (if startsWith (c # s) sub then Some ([], drop (length sub) (c # s))
      else (case split_at_first sub s of
              None \<Rightarrow> None
            | Some (a, b) \<Rightarrow> Some (c # a, b)))"

definition js_includes :: "string \<Rightarrow> string \<Rightarrow> bool" where
  "js_includes s sub = (split_at_first sub s \<noteq> None)"

definition trim :: "string \<Rightarrow> string" where
  "trim s = rev (dropWhile is_space (rev (dropWhile is_space s)))"

text \<open>\<open>parseInt\<close> of a string of digits.\<close>

definition digit_val :: "char \<Rightarrow> nat" where
  "digit_val c = (case split_at_first [c] ''0123456789'' of Some (a, b) \<Rightarrow> length a | None \<Rightarrow> 0)"

definition parseInt_digits :: "string \<Rightarrow> nat" where
  "parseInt_digits ds = foldl (\<lambda>n c. 10 * n + digit_val c) 0 ds"

text \<open>
  \<open>match_after lit ok s\<close> is the first group of a regular expression \<open>lit([ok]+)\<close>
  matched against \<open>s\<close>: the literal text followed by at least one character of the
  class, as many as there are.  It serves \<open>/branch=([^;\s>]+)/\<close>, \<open>/tag=([^;\s>]+)/\<close> and
  \<open>/<sip:([^@]+)/\<close>.
\<close>

fun match_after :: "string \<Rightarrow> (char \<Rightarrow> bool) \<Rightarrow> string \<Rightarrow> string option" where
  "match_after lit ok [] = None"
| "match_after lit ok (c # s) =
     (if startsWith (c # s) lit \<and> takeWhile ok (drop (length lit) (c # s)) \<noteq> []
      then Some (takeWhile ok (drop (length lit) (c # s)))
      else match_after lit ok s)"

definition param_char :: "char \<Rightarrow> bool" where
  "param_char c = (c \<noteq> CHR '';'' \<and> \<not> is_space c \<and> c \<noteq> CHR ''>'')"

definition match_branch :: "string \<Rightarrow> string option" where
  "match_branch s = match_after ''branch='' param_char s"

definition match_tag :: "string \<Rightarrow> string option" where
  "match_tag s = match_after ''tag='' param_char s"

definition match_sip_user :: "string \<Rightarrow> string option" where
  "match_sip_user s = match_after ''<sip:'' (\<lambda>c. c \<noteq> CHR ''@'') s"

text \<open>The first group of \<open>/<([^>]+)>/\<close>.\<close>

fun match_angle :: "string \<Rightarrow> string option" where
  "match_angle [] = None"
| "match_angle (c # s) =
     (if c = CHR ''<'' \<and> takeWhile (\<lambda>x. x \<noteq> CHR ''>'') s \<noteq> []
         \<and> dropWhile (\<lambda>x. x \<noteq> CHR ''>'') s \<noteq> []
      then Some (takeWhile (\<lambda>x. x \<noteq> CHR ''>'') s)
      else match_angle s)"

text \<open>
  The two groups of \<open>/SIP\/2\.0\/UDP\s+([^:;]+)(?::(\d+))?/\<close>.  The white space is
  taken greedily; when nothing of the class \<open>[^:;]\<close> follows it, the matcher gives the
  last white-space character back to the host group (the class contains white space),
  which needs two white-space characters at least.
\<close>

definition via_groups :: "string \<Rightarrow> string \<Rightarrow> string \<times> string option" where
  "via_groups host rest =
     (host,
      (case rest of
         [] \<Rightarrow> None
       | c # r \<Rightarrow> if c = CHR '':'' \<and> takeWhile is_digit r \<noteq> [] then Some (takeWhile is_digit r)
                  else None))"

definition host_char :: "char \<Rightarrow> bool" where
  "host_char c = (c \<noteq> CHR '':'' \<and> c \<noteq> CHR '';'')"

fun match_via :: "string \<Rightarrow> (string \<times> string option) option" where
  "match_via [] = None"
| "match_via (c # s) =
     (if startsWith (c # s) ''SIP/2.0/UDP'' then
        (let rest = drop 11 (c # s);
             ws = takeWhile is_space rest;
             after = dropWhile is_space rest;
             host0 = takeWhile host_char after
         in if ws = [] then match_via s
            else if host0 \<noteq> [] then Some (via_groups host0 (dropWhile host_char after))
            else if 2 \<le> length ws then Some (via_groups [last ws] after)
            else match_via s)
      else match_via s)"

section \<open>Messages\<close>

text \<open>
  \<open>parseSipMessage\<close> stores \<open>Via\<close> lines in an array; a compact \<open>v:\<close> header expanded by
  \<open>expandCompactHeaders\<close> leaves a single string.  The code reads the top Via with
  \<open>Array.isArray(h) ? h[0] : h\<close>.  Any other header is a string, or undefined (\<open>None\<close>).
\<close>

datatype via_hdr = ViaAbsent | ViaStr string | ViaArr "string list"

definition top_via :: "via_hdr \<Rightarrow> string option" where
  "top_via v = (case v of
       ViaAbsent \<Rightarrow> None
     | ViaStr s \<Rightarrow> Some s
     | ViaArr [] \<Rightarrow> None
     | ViaArr (x # xs) \<Rightarrow> Some x)"

record remote_info =
  address :: string
  port :: nat

record sip_request =
  rq_method :: string
  rq_uri :: string
  rq_via :: via_hdr
  rq_from :: "string option"
  rq_to :: "string option"
  rq_call_id :: "string option"
  rq_cseq :: "string option"
  rq_content_type :: "string option"
  rq_other :: "(string \<times> string) list"
  rq_body :: string

section \<open>NAT fixup: \<open>handleNATForRequest\<close>\<close>

text \<open>
  \<open>replace(/rport=\d*/, x)\<close> and \<open>replace(/rport/, x)\<close> rewrite the first match only; the
  callers have checked with \<open>includes\<close> that there is one.
\<close>

definition replace_rport_eq :: "string \<Rightarrow> string \<Rightarrow> string" where
  "replace_rport_eq x v =
     (case split_at_first ''rport='' v of
        None \<Rightarrow> v
      | Some (a, b) \<Rightarrow> a @ x @ dropWhile is_digit b)"

definition replace_rport :: "string \<Rightarrow> string \<Rightarrow> string" where
  "replace_rport x v =
     (case split_at_first ''rport'' v of
        None \<Rightarrow> v
      | Some (a, b) \<Rightarrow> a @ x @ b)"

text \<open>The rewriting of the top Via, a string, for a datagram from \<open>ri\<close>.\<close>

definition nat_fix_via :: "string \<Rightarrow> remote_info \<Rightarrow> string" where
  "nat_fix_via viaHeader ri =
     (case match_via viaHeader of
        None \<Rightarrow> viaHeader
      | Some (viaHost, portGroup) \<Rightarrow>
          (let viaPort = (case portGroup of Some ds \<Rightarrow> parseInt_digits ds | None \<Rightarrow> 5060)
           in if viaHost \<noteq> address ri \<or> viaPort \<noteq> port ri then
                (if js_includes viaHeader ''rport'' then
                   (let updatedVia =
                          (if js_includes viaHeader ''rport=''
                           then replace_rport_eq (''rport='' @ decimal (port ri)) viaHeader
                           else replace_rport (''rport='' @ decimal (port ri)) viaHeader)
                    in if \<not> js_includes updatedVia ''received=''
                       then updatedVia @ '';received='' @ address ri
                       else updatedVia)
                 else viaHeader)
              else viaHeader))"

definition handleNATForRequest :: "sip_request \<Rightarrow> remote_info \<Rightarrow> sip_request" where
  "handleNATForRequest request ri =
     (case rq_via request of
        ViaAbsent \<Rightarrow> request
      | ViaStr s \<Rightarrow> if s = [] then request else request\<lparr>rq_via := ViaStr (nat_fix_via s ri)\<rparr>
      | ViaArr [] \<Rightarrow> request
      | ViaArr (x # xs) \<Rightarrow>
          if x = [] then request else request\<lparr>rq_via := ViaArr (nat_fix_via x ri # xs)\<rparr>)"

section \<open>The state of the gateway\<close>

text \<open>
  A session is a JavaScript object: the dialog store \<open>this.sessions\<close> maps a call
  identifier to a reference, and \<open>heap\<close> gives the object of a reference, so that a
  closure or a suspended method that holds the object still reaches it after the
  store has dropped or replaced the entry.  A \<open>Map\<close> keeps its keys in insertion
  order; an association list updated with \<open>AList.update\<close> does the same.  A key is the
  value of the \<open>Call-ID\<close> header, which may be undefined (\<open>None\<close>).

  A timer field holds the time at which the pending timer fires, \<open>None\<close> when the
  field is null or undefined or when the timer it names has fired.  \<open>createdAt\<close> and
  the logger are left out: nothing reads the former and the latter writes no state.
\<close>

datatype direction = Outgoing | Incoming

datatype dialog_state = Calling | Ringing | Answered | Established | Terminating

record session =
  direction :: direction
  webrtcClientId :: "string option"
  webrtcUserId :: "string option"
  fromTag :: string
  toTag :: "string option"
  state :: dialog_state
  targetUri :: "string option"
  cseq :: nat
  viaBranch :: "string option"
  sipRequest :: "sip_request option"
  rinfo :: "remote_info option"
  transactionKey :: "string option"
  from_uri :: "string option"
  retransmit200Count :: nat
  retransmit200Interval :: nat
  maxRetransmits :: nat
  ackReceived :: bool
  retransmit200Timer :: "nat option"
  ackTimeoutTimer :: "nat option"

record last_response =
  lr_status :: nat
  lr_reason :: string
  lr_body :: "string option"

record invite_txn =
  txn_callId :: "string option"
  lastResponse :: "last_response option"

record sip_response =
  status :: nat
  reason :: string
  rs_via :: via_hdr
  rs_from :: "string option"
  rs_to :: "string option"
  rs_call_id :: "string option"
  rs_cseq :: "string option"
  rs_contact :: "string option"
  rs_allow :: "string option"
  rs_supported :: "string option"
  rs_record_route :: "string option"
  rs_content_type :: "string option"
  rs_accept :: "string option"
  rs_body :: "string option"

text \<open>
  What \<open>socket.send\<close> was given: the message (before \<open>buildSipMessage\<close> writes it out)
  and the host and port it goes to.
\<close>

datatype datagram =
  Sent_response sip_response string nat
| Sent_request sip_request string nat

text \<open>
  An operation handed to the media relay through the retry wrapper: its kind, call
  identifier, from-tag and to-tag.  The SDP and the profile fields of the payload are
  left out.
\<close>

datatype relay_kind = Relay_offer | Relay_answer | Relay_delete

record relay_op =
  relay_kind :: relay_kind
  relay_call_id :: "string option"
  relay_from_tag :: string
  relay_to_tag :: "string option"

record relay_reply =
  reply_result :: string
  reply_sdp :: "string option"

datatype event =
  Ev_call_failed "string option" string
| Ev_incoming_sip_call "string option" string string "string option"
| Ev_sip_call_ended "string option"
| Ev_call_ended "string option"
| Ev_sip_ringing "string option"
| Ev_media_renegotiation "string option" "string option" "string option"

datatype js_error = TypeError string | Error string

definition error_message :: "js_error \<Rightarrow> string" where
  "error_message e = (case e of TypeError m \<Rightarrow> m | Error m \<Rightarrow> m)"

record config =
  sipServerHost :: string
  sipServerPort :: nat
  sipDomain :: string
  displayName :: string
  localSipPort :: nat
  maxConcurrentSessions :: nat
  advertiseIP :: string

record gateway =
  sessions :: "(string option \<times> nat) list"
  heap :: "nat \<Rightarrow> session"
  next_ref :: nat
  inviteTransactions :: "(string \<times> invite_txn) list"
  activeSessions :: int
  totalCalls :: nat
  failedCalls :: nat
  reInvites :: nat
  retriedInvites :: nat
  sent :: "datagram list"
  relay_log :: "relay_op list"
  emitted :: "event list"

text \<open>The timer constants of the constructor, in milliseconds.\<close>

definition T1 :: nat where "T1 = 500"
definition T2 :: nat where "T2 = 4000"
definition TIMER_H :: nat where "TIMER_H = 64 * T1"

text \<open>\<open>this.sessions.get(callId)\<close>: the object, with its reference.\<close>

definition sessions_get :: "gateway \<Rightarrow> string option \<Rightarrow> (nat \<times> session) option" where
  "sessions_get st callId =
     (case map_of (sessions st) callId of
        None \<Rightarrow> None
      | Some r \<Rightarrow> Some (r, heap st r))"

text \<open>\<open>this.sessions.set(callId, {...})\<close> with a fresh object.\<close>

definition sessions_set_new :: "gateway \<Rightarrow> string option \<Rightarrow> session \<Rightarrow> gateway" where
  "sessions_set_new st callId s =
     st\<lparr>sessions := AList.update callId (next_ref st) (sessions st),
        heap := (heap st)(next_ref st := s),
        next_ref := Suc (next_ref st)\<rparr>"

definition heap_upd :: "gateway \<Rightarrow> nat \<Rightarrow> (session \<Rightarrow> session) \<Rightarrow> gateway" where
  "heap_upd st r f = st\<lparr>heap := (heap st)(r := f (heap st r))\<rparr>"

text \<open>How a template literal writes a header or field that may be undefined or null.\<close>

definition str_undefined :: "string option \<Rightarrow> string" where
  "str_undefined x = (case x of None \<Rightarrow> ''undefined'' | Some s \<Rightarrow> s)"

definition str_null :: "string option \<Rightarrow> string" where
  "str_null x = (case x of None \<Rightarrow> ''null'' | Some s \<Rightarrow> s)"

text \<open>
  The key of a server transaction, \<open>`${callId}-${cseq}-${branch}`\<close>, with the branch of
  the top Via (null without a match).
\<close>

definition request_branch :: "sip_request \<Rightarrow> string option" where
  "request_branch request =
     (case top_via (rq_via request) of
        None \<Rightarrow> None
      | Some v \<Rightarrow> if v = [] then None else match_branch v)"

definition invite_key :: "sip_request \<Rightarrow> string" where
  "invite_key request =
     str_undefined (rq_call_id request) @ ''-'' @ str_undefined (rq_cseq request) @ ''-''
       @ str_null (request_branch request)"

section \<open>\<open>validateSDP\<close>\<close>

text \<open>
  The argument is a string, an object (given by its \<open>sdp\<close> property when that is a
  string, and by its \<open>JSON.stringify\<close> text) or something else (given by its
  \<open>typeof\<close>).
\<close>

datatype sdp_arg = SdpString string | SdpObject "string option" string | SdpOther string

text \<open>\<open>split(/\r?\n/)\<close>.\<close>

fun split_lines :: "string \<Rightarrow> string \<Rightarrow> string list" where
  "split_lines cur [] = [cur]"
| "split_lines cur [c] = (if c = CHR 0x0A then [cur, []] else [cur @ [c]])"
| "split_lines cur (c # d # s) =
     (if c = CHR 0x0A then cur # split_lines [] (d # s)
      else if c = CHR 0x0D \<and> d = CHR 0x0A then cur # split_lines [] s
      else split_lines (cur @ [c]) (d # s))"

definition some_line :: "string list \<Rightarrow> string list \<Rightarrow> bool" where
  "some_line lines prefixes = list_ex (\<lambda>l. list_ex (startsWith l) prefixes) lines"

definition validateSDP :: "revision \<Rightarrow> sdp_arg \<Rightarrow> js_error + unit" where
  "validateSDP rv sdp =
     (case (case sdp of
              SdpString s \<Rightarrow> Inr s
            | SdpObject f json \<Rightarrow>
                (case f of None \<Rightarrow> Inr json | Some s \<Rightarrow> if s = [] then Inr json else Inr s)
            | SdpOther ty \<Rightarrow> Inl (Error (''Invalid SDP type: '' @ ty))) of
        Inl e \<Rightarrow> Inl e
      | Inr sdpString \<Rightarrow>
          if list_all is_space sdpString then Inl (Error ''SDP is empty'')
          else
            (let lines = split_lines [] sdpString in
             if \<not> startsWith (hd lines) ''v='' then
               Inl (Error ''SDP must start with version line (v=)'')
             else if \<not> some_line lines [''m=audio'', ''m=video''] then
               Inl (Error ''SDP must contain at least one media line (m=audio or m=video)'')
             else if rv = Rev_plugins \<and> \<not> some_line lines [''c=IN IP4'', ''c=IN IP6''] then
               Inl (Error ''SDP must contain connection information (c=)'')
             else if rv = Rev_plugins \<and> \<not> some_line lines [''o=''] then
               Inl (Error ''SDP must contain origin line (o=)'')
             else if rv = Rev_plugins \<and> \<not> some_line lines [''s=''] then
               Inl (Error ''SDP must contain session name (s=)'')
             else Inr ()))"

definition reply_sdp_arg :: "string option \<Rightarrow> sdp_arg" where
  "reply_sdp_arg x = (case x of None \<Rightarrow> SdpOther ''undefined'' | Some s \<Rightarrow> SdpString s)"

section \<open>\<open>sendResponse\<close>\<close>

text \<open>
  A value is truthy when it is a string that is not empty.  \<open>sendResponse\<close> throws a
  \<open>TypeError\<close> before it changes anything when it is asked for a 180 or a 200 and the
  request has no \<open>To\<close> header.
\<close>

definition truthy :: "string option \<Rightarrow> bool" where
  "truthy x = (case x of None \<Rightarrow> False | Some s \<Rightarrow> s \<noteq> [])"

definition sendResponse ::
  "config \<Rightarrow> gateway \<Rightarrow> sip_request \<Rightarrow> nat \<Rightarrow> string \<Rightarrow> remote_info \<Rightarrow> string option
     \<Rightarrow> js_error + gateway"
where
  "sendResponse cfg st request stat reas ri body =
     (if (stat = 180 \<or> stat = 200) \<and> rq_to request = None then
        Inl (TypeError ''toHeader is undefined'')
      else
        (let toHeader = rq_to request;
             responseToHeader =
               (if (stat = 180 \<or> stat = 200) \<and> \<not> js_includes (the toHeader) ''tag='' then
                  (case sessions_get st (rq_call_id request) of
                     None \<Rightarrow> toHeader
                   | Some (r, s) \<Rightarrow>
                       if truthy (toTag s) then Some (the toHeader @ '';tag='' @ the (toTag s))
                       else toHeader)
                else toHeader);
             decorated = (stat = 180 \<or> stat = 200);
             response = \<lparr>
               status = stat,
               reason = reas,
               rs_via = rq_via request,
               rs_from = rq_from request,
               rs_to = responseToHeader,
               rs_call_id = rq_call_id request,
               rs_cseq = rq_cseq request,
               rs_contact = (if decorated then
                  Some (''\"'' @ displayName cfg @ ''\" <sip:gateway@'' @ advertiseIP cfg @ '':''
                          @ decimal (localSipPort cfg) @ ''>'') else None),
               rs_allow = (if decorated then Some ''INVITE, ACK, BYE, CANCEL, OPTIONS, INFO'' else None),
               rs_supported = (if decorated then Some ''replaces, timer'' else None),
               rs_record_route = (if decorated then
                  Some (''<sip:gateway@'' @ advertiseIP cfg @ '':'' @ decimal (localSipPort cfg)
                          @ '';lr>'') else None),
               rs_content_type = (if truthy body then Some ''application/sdp'' else None),
               rs_accept = (if truthy body then Some ''application/sdp'' else None),
               rs_body = (if truthy body then body else None)\<rparr>;
             st1 = st\<lparr>sent := sent st @ [Sent_response response (address ri) (port ri)]\<rparr>;
             txKey = invite_key request
         in Inr (case map_of (inviteTransactions st1) txKey of
                   None \<Rightarrow> st1
                 | Some txn \<Rightarrow>
                     st1\<lparr>inviteTransactions :=
                           AList.update txKey
                             (txn\<lparr>lastResponse :=
                                    Some \<lparr>lr_status = stat, lr_reason = reas, lr_body = body\<rparr>\<rparr>)
                             (inviteTransactions st1)\<rparr>)))"

section \<open>The methods of the gateway\<close>

text \<open>
  An \<open>async\<close> method runs without interruption up to an \<open>await\<close> of the media relay
  and is resumed when the relay has answered; other handlers run in between.  Each
  such method is two functions: the first runs up to the \<open>await\<close>, records the
  operation in \<open>relay_log\<close> and returns \<open>Await p\<close>, where \<open>p\<close> holds the local variables
  the rest of the method reads; \<open>resume\<close> runs the rest on what the relay did
  (\<open>attempt\<close>, as in the retry wrapper).  A method that ends returns \<open>Done\<close>,
  \<open>Returned v\<close> or \<open>Threw e\<close> (a rejected promise).  \<open>emit\<close> is recorded in \<open>emitted\<close>;
  the listeners of \<open>signaling-server.js\<close> are modelled apart, below.
\<close>

datatype pending =
  Pend_cleanup "string option"
| Pend_cleanup_then_throw "string option" js_error
| Pend_incoming sip_request remote_info string "string option" string string string
| Pend_reinvite sip_request remote_info "string option" nat
| Pend_makeCall "string option" string string string string nat
| Pend_answer "string option" nat string

datatype outcome = Done | Returned string | Threw js_error | Await pending

definition emit :: "gateway \<Rightarrow> event \<Rightarrow> gateway" where
  "emit st e = st\<lparr>emitted := emitted st @ [e]\<rparr>"

definition relay_call :: "gateway \<Rightarrow> relay_op \<Rightarrow> gateway" where
  "relay_call st op = st\<lparr>relay_log := relay_log st @ [op]\<rparr>"

definition delete_invite_txn :: "gateway \<Rightarrow> string option \<Rightarrow> gateway" where
  "delete_invite_txn st key =
     (if truthy key then st\<lparr>inviteTransactions := AList.delete (the key) (inviteTransactions st)\<rparr>
      else st)"

subsection \<open>\<open>cleanupSession\<close>\<close>

text \<open>
  \<open>plugins/sipGateway.js\<close> (lines 1248-1299) has no guard on the state;
  \<open>part_000\<close> (lines 1222-1267) returns when the state is \<open>terminating\<close> and sets it
  otherwise.  The \<open>try\<close> around the relay's delete swallows its failure, so the rest
  of the method does not depend on what the relay did.
\<close>

definition cleanupSession :: "revision \<Rightarrow> gateway \<Rightarrow> string option \<Rightarrow> gateway \<times> outcome" where
  "cleanupSession rv st callId =
     (case sessions_get st callId of
        None \<Rightarrow> (st, Done)
      | Some (r, s) \<Rightarrow>
          (case rv of
             Rev_plugins \<Rightarrow>
               (let st1 = heap_upd st r (\<lambda>x. x\<lparr>retransmit200Timer := None, ackTimeoutTimer := None\<rparr>);
                    st2 = delete_invite_txn st1 (transactionKey s);
                    st3 = relay_call st2 \<lparr>relay_kind = Relay_delete, relay_call_id = callId,
                            relay_from_tag = fromTag s, relay_to_tag = toTag s\<rparr>
                in (st3, Await (Pend_cleanup callId)))
           | Rev_part0 \<Rightarrow>
               if state s = Terminating then (st, Done)
               else
                 (let st1 = heap_upd st r (\<lambda>x. x\<lparr>state := Terminating,
                              ackTimeoutTimer := None, retransmit200Timer := None\<rparr>);
                      st2 = delete_invite_txn st1 (transactionKey s);
                      st3 = relay_call st2 \<lparr>relay_kind = Relay_delete, relay_call_id = callId,
                              relay_from_tag = fromTag s,
                              relay_to_tag = (if truthy (toTag s) then toTag s else None)\<rparr>
                  in (st3, Await (Pend_cleanup callId)))))"

definition cleanupSession_resume :: "revision \<Rightarrow> gateway \<Rightarrow> string option \<Rightarrow> gateway" where
  "cleanupSession_resume rv st callId =
     st\<lparr>sessions := AList.delete callId (sessions st),
        activeSessions := (case rv of
            Rev_plugins \<Rightarrow> max 0 (activeSessions st - 1)
          | Rev_part0 \<Rightarrow> activeSessions st - 1)\<rparr>"

subsection \<open>\<open>rejectCall\<close>\<close>

definition rejectCall ::
  "revision \<Rightarrow> config \<Rightarrow> gateway \<Rightarrow> string option \<Rightarrow> nat \<Rightarrow> string \<Rightarrow> gateway \<times> outcome"
where
  "rejectCall rv cfg st callId statusCode reas =
     (case sessions_get st callId of
        None \<Rightarrow> (st, Done)
      | Some (r, s) \<Rightarrow>
          if direction s \<noteq> Incoming then (st, Done)
          else
            (case (sipRequest s, rinfo s) of
               (Some request, Some ri) \<Rightarrow>
                 (case sendResponse cfg st request statusCode reas ri None of
                    Inl e \<Rightarrow> (st, Done)
                  | Inr st1 \<Rightarrow> cleanupSession rv st1 callId)
             | _ \<Rightarrow> (st, Done)))"

subsection \<open>\<open>hangup\<close>\<close>

text \<open>
  \<open>plugins/sipGateway.js\<close> (lines 1212-1246) sends a BYE whatever the state and sends
  it to the configured server.  \<open>part_000\<close> (lines 1114-1186) sends a BYE in the states
  \<open>established\<close> and \<open>answered\<close>, to the configured server for an outgoing dialog and to
  the address the INVITE came from for an incoming one, a CANCEL for an outgoing dialog
  in the state \<open>calling\<close>, and nothing otherwise; an exception while the message is
  composed is caught, and cleanup follows in every case.
\<close>

definition local_via :: "config \<Rightarrow> string \<Rightarrow> string" where
  "local_via cfg branch =
     ''SIP/2.0/UDP '' @ advertiseIP cfg @ '':'' @ decimal (localSipPort cfg) @ '';branch='' @ branch"

definition new_request ::
  "string \<Rightarrow> string \<Rightarrow> string \<Rightarrow> string option \<Rightarrow> string option \<Rightarrow> string option \<Rightarrow> string
     \<Rightarrow> sip_request"
where
  "new_request meth u v f t callId cs =
     \<lparr>rq_method = meth, rq_uri = u, rq_via = ViaStr v, rq_from = f, rq_to = t,
      rq_call_id = callId, rq_cseq = Some cs, rq_content_type = None,
      rq_other = [(''max-forwards'', ''70'')], rq_body = []\<rparr>"

definition send_request :: "gateway \<Rightarrow> sip_request \<Rightarrow> string \<Rightarrow> nat \<Rightarrow> gateway" where
  "send_request st m host p = st\<lparr>sent := sent st @ [Sent_request m host p]\<rparr>"

definition hangup_plugins ::
  "config \<Rightarrow> gateway \<Rightarrow> string option \<Rightarrow> (nat \<Rightarrow> byte) \<Rightarrow> gateway \<times> outcome"
where
  "hangup_plugins cfg st callId rnd =
     (case sessions_get st callId of
        None \<Rightarrow> (st, Threw (Error ''Session not found''))
      | Some (r, s) \<Rightarrow>
          (let byeMessage = new_request ''BYE''
                 (if truthy (targetUri s) then the (targetUri s)
                  else ''sip:'' @ fromTag s @ ''@'' @ sipServerHost cfg)
                 (local_via cfg (generateBranch rnd))
                 (Some (if direction s = Outgoing
                        then ''<sip:webrtc@'' @ advertiseIP cfg @ ''>;tag='' @ fromTag s
                        else ''<sip:fede@'' @ advertiseIP cfg @ ''>;tag='' @ str_null (toTag s)))
                 (Some (if direction s = Outgoing
                        then ''<'' @ str_undefined (targetUri s) @ ''>;tag='' @ str_null (toTag s)
                        else ''<sip:'' @ str_undefined (from_uri s) @ ''>;tag='' @ fromTag s))
                 callId
                 (decimal (Suc (cseq s)) @ '' BYE'');
               st1 = heap_upd st r (\<lambda>x. x\<lparr>cseq := Suc (cseq x)\<rparr>);
               st2 = send_request st1 byeMessage (sipServerHost cfg) (sipServerPort cfg)
           in cleanupSession Rev_plugins st2 callId))"

definition gateway_from :: "config \<Rightarrow> session \<Rightarrow> string" where
  "gateway_from cfg s =
     ''\"'' @ displayName cfg @ ''\" <sip:gateway@'' @ sipDomain cfg @ ''>;tag='' @ fromTag s"

definition hangup_part0 ::
  "config \<Rightarrow> gateway \<Rightarrow> string option \<Rightarrow> (nat \<Rightarrow> byte) \<Rightarrow> gateway \<times> outcome"
where
  "hangup_part0 cfg st callId rnd =
     (case sessions_get st callId of
        None \<Rightarrow> (st, Done)
      | Some (r, s) \<Rightarrow>
          (let st_sent =
             (if state s = Established \<or> state s = Answered then
                (let branch = generateBranch rnd;
                     st1 = heap_upd st r (\<lambda>x. x\<lparr>cseq := Suc (cseq x)\<rparr>);
                     cs = decimal (Suc (cseq s)) @ '' BYE''
                 in if direction s = Outgoing then
                      send_request st1
                        (new_request ''BYE'' (str_undefined (targetUri s)) (local_via cfg branch)
                           (Some (gateway_from cfg s))
                           (Some (''<'' @ str_undefined (targetUri s) @ ''>;tag='' @ str_null (toTag s)))
                           callId cs)
                        (sipServerHost cfg) (sipServerPort cfg)
                    else
                      (case (sipRequest s, rinfo s) of
                         (Some request, Some ri) \<Rightarrow>
                           (case rq_from request of
                              None \<Rightarrow> st1
                            | Some fromHeader \<Rightarrow>
                                send_request st1
                                  (new_request ''BYE''
                                     (case (if fromHeader = [] then None else match_angle fromHeader) of
                                        Some u \<Rightarrow> u
                                      | None \<Rightarrow> takeWhile (\<lambda>c. c \<noteq> CHR '';'') fromHeader)
                                     (local_via cfg branch)
                                     (Some (str_undefined (rq_to request) @ '';tag=''
                                              @ str_null (toTag s)))
                                     (rq_from request)
                                     callId cs)
                                  (address ri) (port ri))
                       | _ \<Rightarrow> st1))
              else if direction s = Outgoing \<and> state s = Calling then
                send_request st
                  (new_request ''CANCEL'' (str_undefined (targetUri s))
                     (local_via cfg (str_undefined (viaBranch s)))
                     (Some (gateway_from cfg s))
                     (Some (''<'' @ str_undefined (targetUri s) @ ''>''))
                     callId (decimal (cseq s) @ '' CANCEL''))
                  (sipServerHost cfg) (sipServerPort cfg)
              else st)
           in cleanupSession Rev_part0 st_sent callId))"

definition hangup ::
  "revision \<Rightarrow> config \<Rightarrow> gateway \<Rightarrow> string option \<Rightarrow> (nat \<Rightarrow> byte) \<Rightarrow> gateway \<times> outcome"
where
  "hangup rv cfg st callId rnd =
     (case rv of
        Rev_plugins \<Rightarrow> hangup_plugins cfg st callId rnd
      | Rev_part0 \<Rightarrow> hangup_part0 cfg st callId rnd)"

subsection \<open>\<open>handleAck\<close>, \<open>handleBye\<close>, \<open>handleCancel\<close>, \<open>handleInfo\<close>\<close>

definition handleAck :: "gateway \<Rightarrow> sip_request \<Rightarrow> gateway" where
  "handleAck st request =
     (case sessions_get st (rq_call_id request) of
        None \<Rightarrow> st
      | Some (r, s) \<Rightarrow>
          delete_invite_txn
            (heap_upd st r (\<lambda>x. x\<lparr>retransmit200Timer := None, ackTimeoutTimer := None,
                                   ackReceived := True, state := Established\<rparr>))
            (transactionKey s))"

definition handleBye ::
  "revision \<Rightarrow> config \<Rightarrow> gateway \<Rightarrow> sip_request \<Rightarrow> remote_info \<Rightarrow> gateway \<times> outcome"
where
  "handleBye rv cfg st request ri =
     (let callId = rq_call_id request in
      case rv of
        Rev_plugins \<Rightarrow>
          (case sessions_get st callId of
             Some (r, s) \<Rightarrow>
               (case sendResponse cfg st request 200 ''OK'' ri None of
                  Inl e \<Rightarrow> (st, Threw e)
                | Inr st1 \<Rightarrow>
                    cleanupSession rv
                      (if direction s = Incoming \<and> truthy (webrtcUserId s)
                       then emit st1 (Ev_sip_call_ended callId)
                       else if direction s = Outgoing \<and> truthy (webrtcClientId s)
                       then emit st1 (Ev_call_ended (webrtcClientId s))
                       else st1)
                      callId)
           | None \<Rightarrow>
               (case sendResponse cfg st request 481 ''Call/Transaction Does Not Exist'' ri None of
                  Inl e \<Rightarrow> (st, Threw e)
                | Inr st1 \<Rightarrow> (st1, Done)))
      | Rev_part0 \<Rightarrow>
          (case sendResponse cfg st request 200 ''OK'' ri None of
             Inl e \<Rightarrow> (st, Threw e)
           | Inr st1 \<Rightarrow>
               (case sessions_get st1 callId of
                  Some (r, s) \<Rightarrow>
                    cleanupSession rv
                      (if direction s = Outgoing then emit st1 (Ev_call_ended (webrtcClientId s))
                       else emit st1 (Ev_sip_call_ended callId))
                      callId
                | None \<Rightarrow> (st1, Done))))"

definition handleCancel ::
  "revision \<Rightarrow> config \<Rightarrow> gateway \<Rightarrow> sip_request \<Rightarrow> remote_info \<Rightarrow> gateway \<times> outcome"
where
  "handleCancel rv cfg st request ri =
     (let callId = rq_call_id request in
      case rv of
        Rev_plugins \<Rightarrow>
          (case sessions_get st callId of
             None \<Rightarrow>
               (case sendResponse cfg st request 481 ''Call/Transaction Does Not Exist'' ri None of
                  Inl e \<Rightarrow> (st, Threw e)
                | Inr st1 \<Rightarrow> (st1, Done))
           | Some (r, s) \<Rightarrow>
               if state s = Ringing then
                 (case sendResponse cfg st request 200 ''OK'' ri None of
                    Inl e \<Rightarrow> (st, Threw e)
                  | Inr st1 \<Rightarrow>
                      (case (sipRequest s, rinfo s) of
                         (Some orig, Some ori) \<Rightarrow>
                           (case sendResponse cfg st1 orig 487 ''Request Terminated'' ori None of
                              Inl e \<Rightarrow> (st1, Threw e)
                            | Inr st2 \<Rightarrow>
                                cleanupSession rv
                                  (if truthy (webrtcUserId s) then emit st2 (Ev_sip_call_ended callId)
                                   else st2)
                                  callId)
                       | _ \<Rightarrow> (st1, Threw (TypeError ''sipRequest or rinfo is undefined''))))
               else
                 (case sendResponse cfg st request 481 ''Call/Transaction Does Not Exist'' ri None of
                    Inl e \<Rightarrow> (st, Threw e)
                  | Inr st1 \<Rightarrow> (st1, Done)))
      | Rev_part0 \<Rightarrow>
          (case sendResponse cfg st request 200 ''OK'' ri None of
             Inl e \<Rightarrow> (st, Threw e)
           | Inr st1 \<Rightarrow>
               (case sessions_get st1 callId of
                  None \<Rightarrow> (st1, Done)
                | Some (r, s) \<Rightarrow>
                    (case sipRequest s of
                       Some orig \<Rightarrow>
                         (case rinfo s of
                            Some ori \<Rightarrow>
                              (case sendResponse cfg st1 orig 487 ''Request Terminated'' ori None of
                                 Inl e \<Rightarrow> (st1, Threw e)
                               | Inr st2 \<Rightarrow> cleanupSession rv st2 callId)
                          | None \<Rightarrow> (st1, Threw (TypeError ''rinfo is undefined'')))
                     | None \<Rightarrow>
                         cleanupSession rv
                           (if direction s = Outgoing then emit st1 (Ev_call_ended (webrtcClientId s))
                            else st1)
                           callId))))"

text \<open>
  \<open>handleInfo\<close> answers 200 in both branches.  The event that
  \<open>handleDTMFNotification\<close> emits for a DTMF body is not modelled.
\<close>

definition handleInfo ::
  "config \<Rightarrow> gateway \<Rightarrow> sip_request \<Rightarrow> remote_info \<Rightarrow> gateway \<times> outcome"
where
  "handleInfo cfg st request ri =
     (case sendResponse cfg st request 200 ''OK'' ri None of
        Inl e \<Rightarrow> (st, Threw e)
      | Inr st1 \<Rightarrow> (st1, Done))"

subsection \<open>Incoming INVITE: \<open>handleInvite\<close>, \<open>handleReInvite\<close>, \<open>handleIncomingInvite\<close>\<close>

text \<open>
  What the relay did, seen through the retry wrapper: the failure thrown to the
  caller, or the reply returned.  (The wrapper is called with three tries, so it never
  falls off the end of its loop; that case is the failure \<open>undefined\<close> here.)
\<close>

definition relay_outcome :: "revision \<Rightarrow> (nat \<Rightarrow> string + relay_reply) \<Rightarrow> js_error + relay_reply" where
  "relay_outcome rv attempt =
     (case fst (rtpengineOperationWithRetry rv attempt) of
        Some (Inr reply) \<Rightarrow> Inr reply
      | Some (Inl m) \<Rightarrow> Inl (Error m)
      | None \<Rightarrow> Inl (TypeError ''undefined''))"

text \<open>A reply whose \<open>result\<close> is not \<open>ok\<close> is thrown as an error by every caller.\<close>

definition relay_ok :: "js_error + relay_reply \<Rightarrow> js_error + relay_reply" where
  "relay_ok x =
     (case x of
        Inl e \<Rightarrow> Inl e
      | Inr reply \<Rightarrow>
          if reply_result reply \<noteq> ''ok'' then Inl (Error ''RTPEngine operation failed'')
          else Inr reply)"

text \<open>The \<open>catch\<close> of \<open>handleIncomingInvite\<close> and of \<open>handleReInvite\<close>: answer 500.\<close>

definition reply_500 :: "config \<Rightarrow> gateway \<Rightarrow> sip_request \<Rightarrow> remote_info \<Rightarrow> gateway \<times> outcome" where
  "reply_500 cfg st request ri =
     (case sendResponse cfg st request 500 ''Internal Server Error'' ri None of
        Inl e \<Rightarrow> (st, Threw e)
      | Inr st1 \<Rightarrow> (st1, Done))"

definition handleIncomingInvite ::
  "revision \<Rightarrow> config \<Rightarrow> gateway \<Rightarrow> sip_request \<Rightarrow> remote_info \<Rightarrow> string \<Rightarrow> (nat \<Rightarrow> byte)
     \<Rightarrow> gateway \<times> outcome"
where
  "handleIncomingInvite rv cfg st request ri txKey rnd =
     (let callId = rq_call_id request;
          fromHeader = rq_from request;
          toHeader = rq_to request;
          fromTag' = (case (if truthy fromHeader then match_tag (the fromHeader) else None) of
                       Some t \<Rightarrow> t
                     | None \<Rightarrow> generateTag rv rnd);
          fromUriMatch = (if truthy fromHeader then match_angle (the fromHeader) else None);
          targetUser = (case (if truthy toHeader then match_sip_user (the toHeader) else None) of
                          Some u \<Rightarrow> u
                        | None \<Rightarrow> ''default'')
      in if fromUriMatch = None \<and> fromHeader = None then
           (st, Threw (TypeError ''fromHeader is undefined''))
         else
           (let callerUri = (case fromUriMatch of
                               Some u \<Rightarrow> u
                             | None \<Rightarrow> trim (takeWhile (\<lambda>c. c \<noteq> CHR '';'') (the fromHeader)))
            in if maxConcurrentSessions cfg \<le> length (sessions st) then
                 (case sendResponse cfg st request 503 ''Service Unavailable'' ri None of
                    Inl e \<Rightarrow> reply_500 cfg st request ri
                  | Inr st1 \<Rightarrow> (st1, Done))
               else
                 (case validateSDP rv (SdpString (rq_body request)) of
                    Inl e \<Rightarrow> reply_500 cfg st request ri
                  | Inr u \<Rightarrow>
                      (relay_call st \<lparr>relay_kind = Relay_offer, relay_call_id = callId,
                                       relay_from_tag = fromTag', relay_to_tag = None\<rparr>,
                       Await (Pend_incoming request ri txKey callId fromTag' callerUri
                                targetUser)))))"

definition handleIncomingInvite_resume ::
  "revision \<Rightarrow> config \<Rightarrow> gateway \<Rightarrow> sip_request \<Rightarrow> remote_info \<Rightarrow> string \<Rightarrow> string option
     \<Rightarrow> string \<Rightarrow> string \<Rightarrow> string \<Rightarrow> (nat \<Rightarrow> string + relay_reply) \<Rightarrow> (nat \<Rightarrow> byte)
     \<Rightarrow> gateway \<times> outcome"
where
  "handleIncomingInvite_resume rv cfg st request ri txKey callId fromTag' callerUri
       targetUser attempt rnd =
     (case relay_ok (relay_outcome rv attempt) of
        Inl e \<Rightarrow> reply_500 cfg st request ri
      | Inr offerResponse \<Rightarrow>
          (let toTag' = generateTag rv rnd;
               st1 = st\<lparr>inviteTransactions :=
                          AList.update txKey \<lparr>txn_callId = callId, lastResponse = None\<rparr>
                            (inviteTransactions st)\<rparr>;
               st2 = sessions_set_new st1 callId
                       \<lparr>direction = Incoming, webrtcClientId = None, webrtcUserId = None,
                        fromTag = fromTag', toTag = Some toTag', state = Ringing, targetUri = None,
                        cseq = 1, viaBranch = None, sipRequest = Some request, rinfo = Some ri,
                        transactionKey = Some txKey, from_uri = Some callerUri,
                        retransmit200Count = 0, retransmit200Interval = 0, maxRetransmits = 0,
                        ackReceived = False, retransmit200Timer = None, ackTimeoutTimer = None\<rparr>;
               st3 = st2\<lparr>activeSessions := activeSessions st2 + 1, totalCalls := Suc (totalCalls st2)\<rparr>
           in case sendResponse cfg st3 request 100 ''Trying'' ri None of
                Inl e \<Rightarrow> reply_500 cfg st3 request ri
              | Inr st4 \<Rightarrow>
                  (case sendResponse cfg st4 request 180 ''Ringing'' ri None of
                     Inl e \<Rightarrow> reply_500 cfg st4 request ri
                   | Inr st5 \<Rightarrow>
                       (emit st5 (Ev_incoming_sip_call callId callerUri targetUser
                                    (reply_sdp offerResponse)),
                        Done))))"

definition handleReInvite ::
  "revision \<Rightarrow> config \<Rightarrow> gateway \<Rightarrow> sip_request \<Rightarrow> remote_info \<Rightarrow> nat \<Rightarrow> gateway \<times> outcome"
where
  "handleReInvite rv cfg st request ri r =
     (case validateSDP rv (SdpString (rq_body request)) of
        Inl e \<Rightarrow> reply_500 cfg st request ri
      | Inr u \<Rightarrow>
          (relay_call st \<lparr>relay_kind = Relay_offer, relay_call_id = rq_call_id request,
                           relay_from_tag = fromTag (heap st r), relay_to_tag = toTag (heap st r)\<rparr>,
           Await (Pend_reinvite request ri (rq_call_id request) r)))"

definition handleReInvite_resume ::
  "revision \<Rightarrow> config \<Rightarrow> gateway \<Rightarrow> sip_request \<Rightarrow> remote_info \<Rightarrow> string option \<Rightarrow> nat
     \<Rightarrow> (nat \<Rightarrow> string + relay_reply) \<Rightarrow> gateway \<times> outcome"
where
  "handleReInvite_resume rv cfg st request ri callId r attempt =
     (case relay_ok (relay_outcome rv attempt) of
        Inl e \<Rightarrow> reply_500 cfg st request ri
      | Inr updateResponse \<Rightarrow>
          (case validateSDP rv (reply_sdp_arg (reply_sdp updateResponse)) of
             Inl e \<Rightarrow> reply_500 cfg st request ri
           | Inr u \<Rightarrow>
               (case sendResponse cfg st request 200 ''OK'' ri (reply_sdp updateResponse) of
                  Inl e \<Rightarrow> reply_500 cfg st request ri
                | Inr st1 \<Rightarrow>
                    (emit st1 (Ev_media_renegotiation
                                 (if direction (heap st1 r) = Outgoing
                                  then webrtcClientId (heap st1 r) else webrtcUserId (heap st1 r))
                                 callId (reply_sdp updateResponse)),
                     Done))))"

definition handleInvite ::
  "revision \<Rightarrow> config \<Rightarrow> gateway \<Rightarrow> sip_request \<Rightarrow> remote_info \<Rightarrow> (nat \<Rightarrow> byte)
     \<Rightarrow> gateway \<times> outcome"
where
  "handleInvite rv cfg st request ri rnd =
     (let callId = rq_call_id request;
          txKey = invite_key request
      in case map_of (inviteTransactions st) txKey of
           Some existingTransaction \<Rightarrow>
             (let st1 = st\<lparr>retriedInvites := Suc (retriedInvites st)\<rparr>
              in case lastResponse existingTransaction of
                   None \<Rightarrow> (st1, Done)
                 | Some lr \<Rightarrow>
                     (case sendResponse cfg st1 request (lr_status lr) (lr_reason lr) ri (lr_body lr) of
                        Inl e \<Rightarrow> (st1, Threw e)
                      | Inr st2 \<Rightarrow> (st2, Done)))
         | None \<Rightarrow>
             (case sessions_get st callId of
                Some (r, s) \<Rightarrow>
                  if state s = Established
                  then handleReInvite rv cfg (st\<lparr>reInvites := Suc (reInvites st)\<rparr>) request ri r
                  else handleIncomingInvite rv cfg st request ri txKey rnd
              | None \<Rightarrow> handleIncomingInvite rv cfg st request ri txKey rnd))"

subsection \<open>\<open>answerSipCall\<close> and its timers\<close>

text \<open>
  The \<open>catch\<close> of \<open>answerSipCall\<close>: \<open>await this.cleanupSession(callId); throw error\<close>.
\<close>

definition answer_failed :: "revision \<Rightarrow> gateway \<Rightarrow> string option \<Rightarrow> js_error \<Rightarrow> gateway \<times> outcome" where
  "answer_failed rv st callId e =
     (case cleanupSession rv st callId of
        (st1, Await p) \<Rightarrow> (st1, Await (Pend_cleanup_then_throw callId e))
      | (st1, other) \<Rightarrow> (st1, Threw e))"

definition answerSipCall ::
  "revision \<Rightarrow> gateway \<Rightarrow> string option \<Rightarrow> string \<Rightarrow> sdp_arg \<Rightarrow> gateway \<times> outcome"
where
  "answerSipCall rv st callId webrtcUserId' webrtcAnswerSdp =
     (case sessions_get st callId of
        None \<Rightarrow> (st, Threw (Error ''Session not found''))
      | Some (r, s) \<Rightarrow>
          (case validateSDP rv webrtcAnswerSdp of
             Inl e \<Rightarrow> answer_failed rv st callId e
           | Inr u \<Rightarrow>
               (let st1 = heap_upd st r (\<lambda>x. x\<lparr>state := Answered, webrtcUserId := Some webrtcUserId'\<rparr>)
                in if rv = Rev_part0 \<and> (case webrtcAnswerSdp of SdpString t \<Rightarrow> False | _ \<Rightarrow> True) then
                     answer_failed rv st1 callId (TypeError ''cleanSdp.includes is not a function'')
                   else
                     (relay_call st1 \<lparr>relay_kind = Relay_answer, relay_call_id = callId,
                                       relay_from_tag = fromTag s, relay_to_tag = toTag s\<rparr>,
                      Await (Pend_answer callId r webrtcUserId')))))"

definition answerSipCall_resume ::
  "revision \<Rightarrow> config \<Rightarrow> gateway \<Rightarrow> string option \<Rightarrow> nat \<Rightarrow> string
     \<Rightarrow> (nat \<Rightarrow> string + relay_reply) \<Rightarrow> nat \<Rightarrow> gateway \<times> outcome"
where
  "answerSipCall_resume rv cfg st callId r webrtcUserId' attempt now =
     (case relay_ok (relay_outcome rv attempt) of
        Inl e \<Rightarrow> answer_failed rv st callId e
      | Inr answerResponse \<Rightarrow>
          (case validateSDP rv (reply_sdp_arg (reply_sdp answerResponse)) of
             Inl e \<Rightarrow> answer_failed rv st callId e
           | Inr u \<Rightarrow>
               (case (sipRequest (heap st r), rinfo (heap st r)) of
                  (Some request, Some ri) \<Rightarrow>
                    (case sendResponse cfg st request 200 ''OK'' ri (reply_sdp answerResponse) of
                       Inl e \<Rightarrow> answer_failed rv st callId e
                     | Inr st1 \<Rightarrow>
                         (heap_upd st1 r (\<lambda>x. x\<lparr>retransmit200Count := 0,
                              retransmit200Interval := T1, maxRetransmits := 7,
                              ackTimeoutTimer := Some (now + TIMER_H),
                              retransmit200Timer := Some (now + T1)\<rparr>),
                          Done))
                | _ \<Rightarrow> answer_failed rv st callId (TypeError ''sipRequest or rinfo is undefined''))))"

text \<open>
  The closure \<open>retransmit200OK\<close> of \<open>answerSipCall\<close>, run when the timer of the field
  \<open>retransmit200Timer\<close> fires at time \<open>now\<close>.  It holds the session object \<open>r\<close>, the
  request and the SDP of the answer.  The boolean tells whether it sent the 200 again.
\<close>

definition retransmit200OK ::
  "config \<Rightarrow> gateway \<Rightarrow> nat \<Rightarrow> sip_request \<Rightarrow> string option \<Rightarrow> nat \<Rightarrow> gateway \<times> bool"
where
  "retransmit200OK cfg st r request sdp now =
     (let st0 = heap_upd st r (\<lambda>x. x\<lparr>retransmit200Timer := None\<rparr>);
          s = heap st0 r
      in if ackReceived s \<or> maxRetransmits s \<le> retransmit200Count s then (st0, False)
         else
           (let st1 = heap_upd st0 r (\<lambda>x. x\<lparr>retransmit200Count := Suc (retransmit200Count x)\<rparr>)
            in case rinfo s of
                 None \<Rightarrow> (st1, False)
               | Some ri \<Rightarrow>
                   (case sendResponse cfg st1 request 200 ''OK'' ri sdp of
                      Inl e \<Rightarrow> (st1, False)
                    | Inr st2 \<Rightarrow>
                        (let nextInterval = min (retransmit200Interval s * 2) T2
                         in (heap_upd st2 r (\<lambda>x. x\<lparr>retransmit200Interval := nextInterval,
                                                    retransmit200Timer := Some (now + nextInterval)\<rparr>),
                             True)))))"

text \<open>
  The closure of the timer in \<open>ackTimeoutTimer\<close> (Timer H): without an ACK it emits
  \<open>call-failed\<close> and starts the cleanup.
\<close>

definition ackTimeout ::
  "revision \<Rightarrow> gateway \<Rightarrow> nat \<Rightarrow> string option \<Rightarrow> string \<Rightarrow> gateway \<times> outcome"
where
  "ackTimeout rv st r callId webrtcUserId' =
     (let st0 = heap_upd st r (\<lambda>x. x\<lparr>ackTimeoutTimer := None\<rparr>)
      in if \<not> ackReceived (heap st0 r)
         then cleanupSession rv (emit st0 (Ev_call_failed (Some webrtcUserId') ''ACK timeout'')) callId
         else (st0, Done))"

subsection \<open>\<open>makeCallToSip\<close>\<close>

definition makeCall_failed :: "gateway \<Rightarrow> string option \<Rightarrow> js_error \<Rightarrow> gateway \<times> outcome" where
  "makeCall_failed st webrtcClientId' e =
     (emit (st\<lparr>failedCalls := Suc (failedCalls st)\<rparr>)
        (Ev_call_failed webrtcClientId' (error_message e)),
      Threw e)"

definition makeCallToSip ::
  "revision \<Rightarrow> config \<Rightarrow> gateway \<Rightarrow> string option \<Rightarrow> string \<Rightarrow> sdp_arg \<Rightarrow> nat \<Rightarrow> nat \<Rightarrow> nat
     \<Rightarrow> (nat \<Rightarrow> byte) \<Rightarrow> (nat \<Rightarrow> byte) \<Rightarrow> (nat \<Rightarrow> byte) \<Rightarrow> gateway \<times> outcome"
where
  "makeCallToSip rv cfg st webrtcClientId' targetSipUri webrtcOfferSdp now r1 r2 rnd1 rnd2 rnd3 =
     (if maxConcurrentSessions cfg \<le> length (sessions st) then
        (st, Threw (Error ''Maximum concurrent sessions reached''))
      else
        (let callId = generateCallId rv (advertiseIP cfg) now r1 rnd1;
             fromTag' = generateTag rv rnd2;
             branch = generateBranch rnd3;
             cseq' = r2 + 1;
             st1 = st\<lparr>totalCalls := Suc (totalCalls st)\<rparr>
         in case validateSDP rv webrtcOfferSdp of
              Inl e \<Rightarrow> makeCall_failed st1 webrtcClientId' e
            | Inr u \<Rightarrow>
                (relay_call st1 \<lparr>relay_kind = Relay_offer, relay_call_id = Some callId,
                                  relay_from_tag = fromTag', relay_to_tag = None\<rparr>,
                 Await (Pend_makeCall webrtcClientId' targetSipUri callId fromTag' branch cseq'))))"

definition makeCallToSip_resume ::
  "revision \<Rightarrow> config \<Rightarrow> gateway \<Rightarrow> string option \<Rightarrow> string \<Rightarrow> string \<Rightarrow> string \<Rightarrow> string \<Rightarrow> nat
     \<Rightarrow> (nat \<Rightarrow> string + relay_reply) \<Rightarrow> gateway \<times> outcome"
where
  "makeCallToSip_resume rv cfg st webrtcClientId' targetSipUri callId fromTag' branch cseq' attempt =
     (case relay_ok (relay_outcome rv attempt) of
        Inl e \<Rightarrow> makeCall_failed st webrtcClientId' e
      | Inr offerResponse \<Rightarrow>
          (case validateSDP rv (reply_sdp_arg (reply_sdp offerResponse)) of
             Inl e \<Rightarrow> makeCall_failed st webrtcClientId' e
           | Inr u \<Rightarrow>
               (let inviteMessage =
                      \<lparr>rq_method = ''INVITE'', rq_uri = targetSipUri,
                       rq_via = ViaStr (local_via cfg branch @ '';rport''),
                       rq_from = Some (''\"'' @ displayName cfg @ ''\" <sip:webrtc@'' @ advertiseIP cfg
                                         @ ''>;tag='' @ fromTag'),
                       rq_to = Some (''<'' @ targetSipUri @ ''>''),
                       rq_call_id = Some callId,
                       rq_cseq = Some (decimal cseq' @ '' INVITE''),
                       rq_content_type = Some ''application/sdp'',
                       rq_other = [(''max-forwards'', ''70''),
                                   (''contact'', ''\"'' @ displayName cfg @ ''\" <sip:webrtc@''
                                                   @ advertiseIP cfg @ ''>''),
                                   (''user-agent'', ''WebRTC-SIP-Gateway/2.0''),
                                   (''allow'', ''INVITE, ACK, BYE, CANCEL, OPTIONS, INFO''),
                                   (''supported'', ''replaces, timer'')],
                       rq_body = the (reply_sdp offerResponse)\<rparr>;
                    st1 = sessions_set_new st (Some callId)
                            \<lparr>direction = Outgoing, webrtcClientId = webrtcClientId',
                             webrtcUserId = None, fromTag = fromTag', toTag = None, state = Calling,
                             targetUri = Some targetSipUri, cseq = cseq', viaBranch = Some branch,
                             sipRequest = None, rinfo = None, transactionKey = None, from_uri = None,
                             retransmit200Count = 0, retransmit200Interval = 0, maxRetransmits = 0,
                             ackReceived = False, retransmit200Timer = None, ackTimeoutTimer = None\<rparr>;
                    st2 = st1\<lparr>activeSessions := activeSessions st1 + 1\<rparr>
                in (send_request st2 inviteMessage (sipServerHost cfg) (sipServerPort cfg),
                    Returned callId))))"

subsection \<open>\<open>handleRequest\<close>, \<open>handleIncomingMessage\<close> and the resumption of a method\<close>

definition handleRequest ::
  "revision \<Rightarrow> config \<Rightarrow> gateway \<Rightarrow> sip_request \<Rightarrow> remote_info \<Rightarrow> (nat \<Rightarrow> byte)
     \<Rightarrow> gateway \<times> outcome"
where
  "handleRequest rv cfg st request ri rnd =
     (if rq_method request = ''INVITE'' then handleInvite rv cfg st request ri rnd
      else if rq_method request = ''ACK'' then (handleAck st request, Done)
      else if rq_method request = ''BYE'' then handleBye rv cfg st request ri
      else if rq_method request = ''CANCEL'' then handleCancel rv cfg st request ri
      else if rq_method request = ''INFO'' then handleInfo cfg st request ri
      else if rq_method request = ''OPTIONS'' then
        (case sendResponse cfg st request 200 ''OK'' ri None of
           Inl e \<Rightarrow> (st, Threw e)
         | Inr st1 \<Rightarrow> (st1, Done))
      else
        (case sendResponse cfg st request 501 ''Not Implemented'' ri None of
           Inl e \<Rightarrow> (st, Threw e)
         | Inr st1 \<Rightarrow> (st1, Done)))"

text \<open>
  \<open>handleIncomingMessage\<close> for a request.  (A response goes to \<open>handleResponse\<close>, which
  sends no response of its own and is not modelled.)
\<close>

definition handleIncomingMessage ::
  "revision \<Rightarrow> config \<Rightarrow> gateway \<Rightarrow> sip_request \<Rightarrow> remote_info \<Rightarrow> (nat \<Rightarrow> byte)
     \<Rightarrow> gateway \<times> outcome"
where
  "handleIncomingMessage rv cfg st message ri rnd =
     handleRequest rv cfg st (handleNATForRequest message ri) ri rnd"

definition resume ::
  "revision \<Rightarrow> config \<Rightarrow> gateway \<Rightarrow> pending \<Rightarrow> (nat \<Rightarrow> string + relay_reply) \<Rightarrow> (nat \<Rightarrow> byte) \<Rightarrow> nat
     \<Rightarrow> gateway \<times> outcome"
where
  "resume rv cfg st p attempt rnd now =
     (case p of
        Pend_cleanup callId \<Rightarrow> (cleanupSession_resume rv st callId, Done)
      | Pend_cleanup_then_throw callId e \<Rightarrow> (cleanupSession_resume rv st callId, Threw e)
      | Pend_incoming request ri txKey callId fromTag' callerUri targetUser \<Rightarrow>
          handleIncomingInvite_resume rv cfg st request ri txKey callId fromTag' callerUri
            targetUser attempt rnd
      | Pend_reinvite request ri callId r \<Rightarrow>
          handleReInvite_resume rv cfg st request ri callId r attempt
      | Pend_makeCall webrtcClientId' targetSipUri callId fromTag' branch cseq' \<Rightarrow>
          makeCallToSip_resume rv cfg st webrtcClientId' targetSipUri callId fromTag' branch cseq'
            attempt
      | Pend_answer callId r webrtcUserId' \<Rightarrow>
          answerSipCall_resume rv cfg st callId r webrtcUserId' attempt now)"

section \<open>Two invocations of the cleanup\<close>

text \<open>
  Two callers \<open>A\<close> and \<open>B\<close> invoke \<open>cleanupSession\<close> for one call identifier (a BYE
  from the peer and a hangup from the browser, say).  Each invocation has a first part,
  up to the \<open>await\<close> of the relay's delete, and a second part after it.  The orders in
  which the four parts can run are, up to the names of the callers: \<open>A\<close> complete and
  then \<open>B\<close>; both first parts, then the second part of \<open>A\<close>, then that of \<open>B\<close>; both
  first parts, then the second part of \<open>B\<close>, then that of \<open>A\<close>.
\<close>

datatype schedule = A_then_B | A1_B1_A2_B2 | A1_B1_B2_A2

definition finish_cleanup :: "revision \<Rightarrow> gateway \<Rightarrow> outcome \<Rightarrow> gateway" where
  "finish_cleanup rv st out =
     (case out of
        Await (Pend_cleanup callId) \<Rightarrow> cleanupSession_resume rv st callId
      | _ \<Rightarrow> st)"

definition two_cleanups :: "revision \<Rightarrow> schedule \<Rightarrow> gateway \<Rightarrow> string option \<Rightarrow> gateway \<times> outcome \<times> outcome" where
  "two_cleanups rv sch st callId =
     (case sch of
        A_then_B \<Rightarrow>
          (let (sa, oa) = cleanupSession rv st callId;
               sa2 = finish_cleanup rv sa oa;
               (sb, ob) = cleanupSession rv sa2 callId
           in (finish_cleanup rv sb ob, oa, ob))
      | A1_B1_A2_B2 \<Rightarrow>
          (let (sa, oa) = cleanupSession rv st callId;
               (sb, ob) = cleanupSession rv sa callId
           in (finish_cleanup rv (finish_cleanup rv sb oa) ob, oa, ob))
      | A1_B1_B2_A2 \<Rightarrow>
          (let (sa, oa) = cleanupSession rv st callId;
               (sb, ob) = cleanupSession rv sa callId
           in (finish_cleanup rv (finish_cleanup rv sb ob) oa, oa, ob)))"

definition relay_deletes :: "gateway \<Rightarrow> string option \<Rightarrow> nat" where
  "relay_deletes st callId =
     length (filter (\<lambda>op. relay_kind op = Relay_delete \<and> relay_call_id op = callId) (relay_log st))"

section \<open>Concrete states\<close>

definition example_cfg :: config where
  "example_cfg = \<lparr>sipServerHost = ''10.0.0.2'', sipServerPort = 5060, sipDomain = ''example.org'',
      displayName = ''WebRTC-SIP Gateway'', localSipPort = 5060, maxConcurrentSessions = 1,
      advertiseIP = ''10.0.0.1''\<rparr>"

definition example_rinfo :: remote_info where
  "example_rinfo = \<lparr>address = ''192.168.1.127'', port = 5060\<rparr>"

definition example_sdp :: string where
  "example_sdp = ''v=0'' @ [CHR 0x0A] @ ''o=- 1 1 IN IP4 192.168.1.127'' @ [CHR 0x0A] @ ''s=-''
     @ [CHR 0x0A] @ ''c=IN IP4 192.168.1.127'' @ [CHR 0x0A] @ ''m=audio 4000 RTP/AVP 0''"

definition example_invite :: "string \<Rightarrow> sip_request" where
  "example_invite callId =
     \<lparr>rq_method = ''INVITE'', rq_uri = ''sip:alice@10.0.0.1'',
      rq_via = ViaArr [''SIP/2.0/UDP 192.168.1.127:5060;branch=z9hG4bK'' @ callId],
      rq_from = Some ''<sip:bob@192.168.1.127>;tag=b1'',
      rq_to = Some ''<sip:alice@10.0.0.1>'',
      rq_call_id = Some callId, rq_cseq = Some ''1 INVITE'',
      rq_content_type = Some ''application/sdp'', rq_other = [], rq_body = example_sdp\<rparr>"

definition incoming_session :: "dialog_state \<Rightarrow> session" where
  "incoming_session ds =
     \<lparr>direction = Incoming, webrtcClientId = None, webrtcUserId = Some ''alice'',
      fromTag = ''b1'', toTag = Some ''a1'', state = ds, targetUri = None, cseq = 1,
      viaBranch = None, sipRequest = Some (example_invite ''c1''), rinfo = Some example_rinfo,
      transactionKey = Some (invite_key (example_invite ''c1'')),
      from_uri = Some ''sip:bob@192.168.1.127'',
      retransmit200Count = 0, retransmit200Interval = 0, maxRetransmits = 0,
      ackReceived = False, retransmit200Timer = None, ackTimeoutTimer = None\<rparr>"

definition outgoing_session :: "dialog_state \<Rightarrow> session" where
  "outgoing_session ds =
     \<lparr>direction = Outgoing, webrtcClientId = Some ''alice'', webrtcUserId = None,
      fromTag = ''a1'', toTag = None, state = ds, targetUri = Some ''sip:bob@10.0.0.2'', cseq = 7,
      viaBranch = Some ''z9hG4bKabc'', sipRequest = None, rinfo = None,
      transactionKey = None, from_uri = None,
      retransmit200Count = 0, retransmit200Interval = 0, maxRetransmits = 0,
      ackReceived = False, retransmit200Timer = None, ackTimeoutTimer = None\<rparr>"

definition empty_gateway :: gateway where
  "empty_gateway =
     \<lparr>sessions = [], heap = (\<lambda>r. outgoing_session Calling), next_ref = 0, inviteTransactions = [],
      activeSessions = 0, totalCalls = 0, failedCalls = 0, reInvites = 0, retriedInvites = 0,
      sent = [], relay_log = [], emitted = []\<rparr>"

text \<open>A gateway whose store holds the one dialog \<open>c1\<close>, with the given session object.\<close>

definition one_dialog :: "session \<Rightarrow> gateway" where
  "one_dialog s =
     (sessions_set_new empty_gateway (Some ''c1'') s)\<lparr>activeSessions := 1, totalCalls := 1\<rparr>"

section \<open>Two INVITEs that overlap\<close>

text \<open>
  The relay answers an offer at its first try with \<open>result: 'ok'\<close> and an SDP.
\<close>

definition ok_reply :: "nat \<Rightarrow> string + relay_reply" where
  "ok_reply i = Inr \<lparr>reply_result = ''ok'', reply_sdp = Some example_sdp\<rparr>"

definition resume_ok :: "revision \<Rightarrow> config \<Rightarrow> gateway \<Rightarrow> outcome \<Rightarrow> gateway" where
  "resume_ok rv cfg st out =
     (case out of
        Await p \<Rightarrow> fst (resume rv cfg st p ok_reply (\<lambda>i. 0) 0)
      | _ \<Rightarrow> st)"

text \<open>
  Two INVITE datagrams arrive one after the other, the second before the relay has
  answered the offer of the first; then the relay answers both offers.
\<close>

definition two_invites ::
  "revision \<Rightarrow> config \<Rightarrow> gateway \<Rightarrow> sip_request \<Rightarrow> sip_request \<Rightarrow> remote_info \<Rightarrow> gateway"
where
  "two_invites rv cfg st q1 q2 ri =
     (let (s1, o1) = handleIncomingMessage rv cfg st q1 ri (\<lambda>i. 0);
          (s2, o2) = handleIncomingMessage rv cfg s1 q2 ri (\<lambda>i. 0);
          s3 = resume_ok rv cfg s2 o1
      in resume_ok rv cfg s3 o2)"

text \<open>One INVITE whose offer the relay answers before anything else happens.\<close>

definition one_invite ::
  "revision \<Rightarrow> config \<Rightarrow> gateway \<Rightarrow> sip_request \<Rightarrow> remote_info \<Rightarrow> gateway"
where
  "one_invite rv cfg st q ri =
     (let (s1, o1) = handleIncomingMessage rv cfg st q ri (\<lambda>i. 0)
      in resume_ok rv cfg s1 o1)"

section \<open>Reading the log of datagrams\<close>

text \<open>The method, host and port of a request that was sent; the status of a response.\<close>

definition request_dest :: "datagram \<Rightarrow> (string \<times> string \<times> nat) option" where
  "request_dest d =
     (case d of
        Sent_request m host p \<Rightarrow> Some (rq_method m, host, p)
      | Sent_response m host p \<Rightarrow> None)"

definition response_status :: "datagram \<Rightarrow> nat option" where
  "response_status d =
     (case d of
        Sent_request m host p \<Rightarrow> None
      | Sent_response m host p \<Rightarrow> Some (status m))"

definition requests_sent :: "gateway \<Rightarrow> (string \<times> string \<times> nat) list" where
  "requests_sent st = List.map_filter request_dest (sent st)"

definition statuses_sent :: "gateway \<Rightarrow> nat list" where
  "statuses_sent st = List.map_filter response_status (sent st)"

text \<open>The status that the server transaction of a request remembers, if any.\<close>

definition remembered_status :: "gateway \<Rightarrow> sip_request \<Rightarrow> nat option" where
  "remembered_status st request =
     (case map_of (inviteTransactions st) (invite_key request) of
        None \<Rightarrow> None
      | Some txn \<Rightarrow> map_option lr_status (lastResponse txn))"

text \<open>A gateway whose only server transaction is that of \<open>request\<close>, with nothing remembered.\<close>

definition fresh_transaction :: "sip_request \<Rightarrow> gateway" where
  "fresh_transaction request =
     empty_gateway\<lparr>inviteTransactions :=
        [(invite_key request, \<lparr>txn_callId = rq_call_id request, lastResponse = None\<rparr>)]\<rparr>"

text \<open>The same gateway once the \<open>180 Ringing\<close> has been sent and remembered.\<close>

definition ringing_response :: last_response where
  "ringing_response = \<lparr>lr_status = 180, lr_reason = ''Ringing'', lr_body = None\<rparr>"

definition remembering :: "sip_request \<Rightarrow> gateway" where
  "remembering request =
     empty_gateway\<lparr>inviteTransactions :=
        [(invite_key request,
          \<lparr>txn_callId = rq_call_id request, lastResponse = Some ringing_response\<rparr>)]\<rparr>"

section \<open>The callers in \<open>signaling-server.js\<close> and the entry points of the gateway\<close>

text \<open>
  The listener of \<open>incoming-sip-call\<close> (lines 269-301, the same in both revisions of
  \<open>signaling-server.js\<close>) rejects the call with 404 when no browser peer has the user name
  (\<open>users.has\<close>), and with 480 when the peer is registered but \<open>sendToUser\<close> could not
  deliver.  The handlers of \<open>reject\<close> and of a declined \<open>call-response\<close> reject with 603.
  These are all the calls of \<open>rejectCall\<close>.
\<close>

definition hub_incoming_sip_call ::
  "revision \<Rightarrow> config \<Rightarrow> gateway \<Rightarrow> string option \<Rightarrow> bool \<Rightarrow> bool \<Rightarrow> gateway \<times> outcome"
where
  "hub_incoming_sip_call rv cfg st callId user_registered delivered =
     (if user_registered then
        (if \<not> delivered then rejectCall rv cfg st callId 480 ''Temporarily Unavailable''
         else (st, Done))
      else rejectCall rv cfg st callId 404 ''Not Found'')"

definition hub_reject :: "revision \<Rightarrow> config \<Rightarrow> gateway \<Rightarrow> string option \<Rightarrow> gateway \<times> outcome" where
  "hub_reject rv cfg st callId = rejectCall rv cfg st callId 603 ''Decline''"

text \<open>
  Whatever makes the gateway run: a request datagram, the media relay answering a
  suspended method, a call from \<open>signaling-server.js\<close>, a timer.
\<close>

datatype entry =
  In_message sip_request remote_info "nat \<Rightarrow> byte"
| In_resume pending "nat \<Rightarrow> string + relay_reply" "nat \<Rightarrow> byte" nat
| In_makeCall "string option" string sdp_arg nat nat nat "nat \<Rightarrow> byte" "nat \<Rightarrow> byte" "nat \<Rightarrow> byte"
| In_answer "string option" string sdp_arg
| In_hangup "string option" "nat \<Rightarrow> byte"
| In_hub_incoming "string option" bool bool
| In_hub_reject "string option"
| In_retransmit nat sip_request "string option" nat
| In_ackTimeout nat "string option" string

definition step :: "revision \<Rightarrow> config \<Rightarrow> gateway \<Rightarrow> entry \<Rightarrow> gateway \<times> outcome" where
  "step rv cfg st e =
     (case e of
        In_message message ri rnd \<Rightarrow> handleIncomingMessage rv cfg st message ri rnd
      | In_resume p attempt rnd now \<Rightarrow> resume rv cfg st p attempt rnd now
      | In_makeCall cl uri sdp now r1 r2 rnd1 rnd2 rnd3 \<Rightarrow>
          makeCallToSip rv cfg st cl uri sdp now r1 r2 rnd1 rnd2 rnd3
      | In_answer callId user sdp \<Rightarrow> answerSipCall rv st callId user sdp
      | In_hangup callId rnd \<Rightarrow> hangup rv cfg st callId rnd
      | In_hub_incoming callId user_registered delivered \<Rightarrow>
          hub_incoming_sip_call rv cfg st callId user_registered delivered
      | In_hub_reject callId \<Rightarrow> hub_reject rv cfg st callId
      | In_retransmit r request sdp now \<Rightarrow> (fst (retransmit200OK cfg st r request sdp now), Done)
      | In_ackTimeout r callId user \<Rightarrow> ackTimeout rv st r callId user)"

fun run :: "revision \<Rightarrow> config \<Rightarrow> gateway \<Rightarrow> entry list \<Rightarrow> gateway" where
  "run rv cfg st [] = st"
| "run rv cfg st (e # es) = run rv cfg (fst (step rv cfg st e)) es"

text \<open>
  The status codes of the wire protocol section, and those the code can send.
\<close>

definition spec_statuses :: "nat list" where
  "spec_statuses = [100, 180, 200, 480, 487, 500, 501, 503, 603]"

definition code_statuses :: "nat list" where
  "code_statuses = [100, 180, 200, 404, 480, 481, 487, 500, 501, 503, 603]"

definition status_ok :: "nat \<Rightarrow> bool" where
  "status_ok n = (n \<in> set code_statuses)"

text \<open>
  Every response sent so far, and every response a server transaction remembers (an
  INVITE retransmitted later is answered with it), has one of these status codes.
\<close>

definition statuses_within :: "gateway \<Rightarrow> bool" where
  "statuses_within st =
     (list_all status_ok (statuses_sent st)
      \<and> list_all (\<lambda>kt. case lastResponse (snd kt) of
                           None \<Rightarrow> True
                         | Some lr \<Rightarrow> status_ok (lr_status lr))
           (inviteTransactions st))"

section \<open>Facts about identifiers\<close>

lemma hexdigit_is_hex: "n < 16 \<Longrightarrow> is_hex (hexdigits ! n)"
proof -
  assume "n < 16"
  then have "n < length hexdigits" by (simp add: hexdigits_def)
  then show ?thesis unfolding is_hex_def by (rule nth_mem)
qed

lemma hex_of_byte_hex: "list_all is_hex (hex_of_byte b)"
proof -
  have "unat b < 256" using unsigned_less [of b] by simp
  then have "unat b div 16 < 16" by simp
  then show ?thesis by (simp add: hex_of_byte_def hexdigit_is_hex)
qed

lemma length_hex_of_byte: "length (hex_of_byte b) = 2"
  by (simp add: hex_of_byte_def)

lemma toString_hex_hex: "list_all is_hex (toString_hex bs)"
  by (induction bs) (simp_all add: toString_hex_def hex_of_byte_hex)

lemma length_toString_hex: "length (toString_hex bs) = 2 * length bs"
  by (induction bs) (simp_all add: toString_hex_def length_hex_of_byte)

lemma length_randomBytes: "length (randomBytes n rnd) = n"
  by (simp add: randomBytes_def)

lemma digit_char_digit: "d < 10 \<Longrightarrow> is_digit (digit_char d)"
proof -
  assume "d < 10"
  then have "d < length ''0123456789''" by simp
  then show ?thesis unfolding is_digit_def digit_char_def by (rule nth_mem)
qed

lemma decimal_digits: "list_all is_digit (decimal n) \<and> decimal n \<noteq> []"
proof (induction n rule: decimal.induct)
  case (1 n)
  show ?case
  proof (cases "n < 10")
    case True
    then show ?thesis by (simp add: decimal.simps [of n] digit_char_digit)
  next
    case False
    then show ?thesis using "1.IH" by (simp add: decimal.simps [of n] digit_char_digit)
  qed
qed

text \<open>
  C8, as the code has it.  In both revisions a branch is \<open>z9hG4bK\<close> and 32
  hexadecimal characters.  In \<open>part_000\<close> a call identifier is 32 hexadecimal characters,
  \<open>@\<close> and the advertised address, and a tag is 16 hexadecimal characters.  In
  \<open>plugins/sipGateway.js\<close> a call identifier is the decimal digits of the clock reading,
  the decimal digits of a random integer, \<open>@\<close> and the advertised address, and a tag
  is 12 hexadecimal characters.
\<close>

theorem generated_identifier_formats:
  "branch_format (generateBranch rnd)
   \<and> callid_format ip (generateCallId Rev_part0 ip now r rnd)
   \<and> tag_format (generateTag Rev_part0 rnd)
   \<and> generateCallId Rev_plugins ip now r rnd = decimal now @ decimal r @ ''@'' @ ip
   \<and> list_all is_digit (decimal now) \<and> decimal now \<noteq> []
   \<and> list_all is_digit (decimal r) \<and> decimal r \<noteq> []
   \<and> length (generateTag Rev_plugins rnd) = 12
   \<and> list_all is_hex (generateTag Rev_plugins rnd)"
  by (simp add: branch_format_def callid_format_def tag_format_def generateBranch_def
      generateCallId_def generateTag_def length_toString_hex length_randomBytes
      toString_hex_hex decimal_digits)

text \<open>
  C8 as stated fails in \<open>plugins/sipGateway.js\<close>: with every random byte zero the tag is
  twelve characters long, and at clock reading 1730000000000 with the random integer
  123456 the call identifier has 19 characters before the \<open>@\<close>.
\<close>

theorem generated_identifier_counterexample:
  "\<not> tag_format (generateTag Rev_plugins (\<lambda>i. 0))
   \<and> generateCallId Rev_plugins ''10.0.0.1'' 1730000000000 123456 (\<lambda>i. 0)
       = ''1730000000000123456@10.0.0.1''
   \<and> \<not> callid_format ''10.0.0.1''
         (generateCallId Rev_plugins ''10.0.0.1'' 1730000000000 123456 (\<lambda>i. 0))"
proof -
  have t: "length (generateTag Rev_plugins (\<lambda>i. 0)) = 12"
    by (simp add: generateTag_def length_toString_hex length_randomBytes)
  have d1: "decimal 1730000000000 = ''1730000000000''"
    by (simp add: decimal.simps digit_char_def)
  have d2: "decimal 123456 = ''123456''"
    by (simp add: decimal.simps digit_char_def)
  have c: "generateCallId Rev_plugins ''10.0.0.1'' 1730000000000 123456 (\<lambda>i. 0)
       = ''1730000000000123456@10.0.0.1''"
    by (simp add: generateCallId_def d1 d2)
  show ?thesis using t by (simp add: tag_format_def c callid_format_def)
qed

section \<open>Facts about the retry wrapper\<close>

lemma retry_unfold:
  "rtpengineOperationWithRetry rv attempt =
     (case attempt 0 of Inr v \<Rightarrow> (Some (Inr v), Suc 0, [])
      | Inl e0 \<Rightarrow>
        (case attempt (Suc 0) of Inr v \<Rightarrow> (Some (Inr v), Suc (Suc 0), [backoff_unit rv])
         | Inl e1 \<Rightarrow>
           (case attempt (Suc (Suc 0)) of
              Inr v \<Rightarrow> (Some (Inr v), Suc (Suc (Suc 0)), [backoff_unit rv, backoff_unit rv * 2])
            | Inl e2 \<Rightarrow> (Some (Inl e2), Suc (Suc (Suc 0)), [backoff_unit rv, backoff_unit rv * 2]))))"
  unfolding rtpengineOperationWithRetry_def numeral_3_eq_3
  by (simp add: retry_loop.simps [of _ _ "Suc (Suc (Suc 0))" 0]
      retry_loop.simps [of _ _ "Suc (Suc (Suc 0))" "Suc 0"]
      retry_loop.simps [of _ _ "Suc (Suc (Suc 0))" "Suc (Suc 0)"] split: sum.splits)




section \<open>Facts about \<open>rejectCall\<close>\<close>

text \<open>
  C10.  \<open>rejectCall\<close> on a call identifier that the store does not know, or whose
  dialog is outgoing, returns at once with the state as it was: nothing is sent, the
  relay is not called, nothing is thrown and the store is unchanged.  Hence a
  \<open>rejectCall\<close> that does anything was given an incoming dialog.  Both revisions.
\<close>

theorem rejectCall_unknown_or_outgoing:
  "(sessions_get st callId = None
      \<or> (\<exists>r s. sessions_get st callId = Some (r, s) \<and> direction s = Outgoing)
    \<longrightarrow> rejectCall rv cfg st callId statusCode reas = (st, Done))
   \<and> (rejectCall rv cfg st callId statusCode reas \<noteq> (st, Done)
    \<longrightarrow> (\<exists>r s. sessions_get st callId = Some (r, s) \<and> direction s = Incoming))"
  by (cases "sessions_get st callId"; cases "direction (snd (the (sessions_get st callId)))")
     (auto simp: rejectCall_def)

theorem rejectCall_unknown_or_outgoing_witness:
  "sessions_get (one_dialog (outgoing_session Calling)) (Some ''c1'')
     = Some (0, outgoing_session Calling)
   \<and> direction (outgoing_session Calling) = Outgoing
   \<and> rejectCall Rev_plugins example_cfg (one_dialog (outgoing_session Calling)) (Some ''c1'')
        603 ''Decline'' = (one_dialog (outgoing_session Calling), Done)
   \<and> sessions_get (one_dialog (outgoing_session Calling)) (Some ''c2'') = None
   \<and> rejectCall Rev_plugins example_cfg (one_dialog (outgoing_session Calling)) (Some ''c2'')
        603 ''Decline'' = (one_dialog (outgoing_session Calling), Done)"
proof -
  have g: "sessions_get (one_dialog (outgoing_session Calling)) (Some ''c1'')
     = Some (0, outgoing_session Calling)"
    by (simp add: sessions_get_def one_dialog_def sessions_set_new_def empty_gateway_def)
  have d: "direction (outgoing_session Calling) = Outgoing"
    by (simp add: outgoing_session_def)
  have n: "sessions_get (one_dialog (outgoing_session Calling)) (Some ''c2'') = None"
    by (simp add: sessions_get_def one_dialog_def sessions_set_new_def empty_gateway_def)
  from g d n show ?thesis
    using rejectCall_unknown_or_outgoing
            [of "one_dialog (outgoing_session Calling)" "Some ''c1''" Rev_plugins example_cfg 603 "''Decline''"]
          rejectCall_unknown_or_outgoing
            [of "one_dialog (outgoing_session Calling)" "Some ''c2''" Rev_plugins example_cfg 603 "''Decline''"]
    by auto
qed

section \<open>Facts about \<open>cleanupSession\<close>\<close>

lemma sessions_get_heap_upd:
  "sessions_get (heap_upd st r f) callId =
     (case map_of (sessions st) callId of None \<Rightarrow> None
      | Some r' \<Rightarrow> Some (r', if r' = r then f (heap st r) else heap st r'))"
  by (simp add: sessions_get_def heap_upd_def split: option.splits)

lemma cleanupSession_part0_first:
  "sessions_get st callId = Some (r, s) \<Longrightarrow> state s \<noteq> Terminating \<Longrightarrow>
   \<exists>st1. cleanupSession Rev_part0 st callId = (st1, Await (Pend_cleanup callId))
     \<and> sessions st1 = sessions st
     \<and> activeSessions st1 = activeSessions st
     \<and> state (heap st1 r) = Terminating
     \<and> sessions_get st1 callId = Some (r, heap st1 r)
     \<and> relay_deletes st1 callId = Suc (relay_deletes st callId)"
  by (auto simp: cleanupSession_def sessions_get_def heap_upd_def delete_invite_txn_def
      relay_call_def relay_deletes_def Let_def split: option.splits)

lemma cleanupSession_part0_terminating:
  "sessions_get st callId = Some (r, s) \<Longrightarrow> state s = Terminating \<Longrightarrow>
   cleanupSession Rev_part0 st callId = (st, Done)"
  by (simp add: cleanupSession_def)

lemma cleanupSession_unknown:
  "sessions_get st callId = None \<Longrightarrow> cleanupSession rv st callId = (st, Done)"
  by (simp add: cleanupSession_def)

lemma sessions_get_after_resume:
  "sessions_get (cleanupSession_resume rv st callId) callId = None"
  by (simp add: sessions_get_def cleanupSession_resume_def AList.delete_conv split: option.splits)

lemma cleanup_part0_idempotent:
  assumes g: "sessions_get st callId = Some (r, s)" and t: "state s \<noteq> Terminating"
  shows "\<exists>st'. two_cleanups Rev_part0 sch st callId = (st', Await (Pend_cleanup callId), Done)
     \<and> relay_deletes st' callId = Suc (relay_deletes st callId)
     \<and> sessions st' = AList.delete callId (sessions st)
     \<and> activeSessions st' = activeSessions st - 1"
proof -
  from cleanupSession_part0_first [OF g t] obtain st1 where
    c1: "cleanupSession Rev_part0 st callId = (st1, Await (Pend_cleanup callId))"
    and s1: "sessions st1 = sessions st" "activeSessions st1 = activeSessions st"
    and t1: "state (heap st1 r) = Terminating"
    and g1: "sessions_get st1 callId = Some (r, heap st1 r)"
    and d1: "relay_deletes st1 callId = Suc (relay_deletes st callId)"
    by blast
  have c2: "cleanupSession Rev_part0 st1 callId = (st1, Done)"
    using cleanupSession_part0_terminating [OF g1 t1] .
  have c3: "cleanupSession Rev_part0 (cleanupSession_resume Rev_part0 st1 callId) callId
      = (cleanupSession_resume Rev_part0 st1 callId, Done)"
    by (rule cleanupSession_unknown) (rule sessions_get_after_resume)
  have r: "relay_deletes (cleanupSession_resume Rev_part0 st1 callId) callId = relay_deletes st1 callId"
    by (simp add: relay_deletes_def cleanupSession_resume_def)
  show ?thesis
    by (cases sch)
       (simp_all add: two_cleanups_def c1 c2 c3 finish_cleanup_def r d1,
        simp_all add: cleanupSession_resume_def s1)
qed

lemma cleanupSession_plugins_first:
  "sessions_get st callId = Some (r, s) \<Longrightarrow>
   \<exists>st1. cleanupSession Rev_plugins st callId = (st1, Await (Pend_cleanup callId))
     \<and> sessions st1 = sessions st
     \<and> sessions_get st1 callId = Some (r, heap st1 r)
     \<and> relay_deletes st1 callId = Suc (relay_deletes st callId)"
  by (auto simp: cleanupSession_def sessions_get_def heap_upd_def delete_invite_txn_def
      relay_call_def relay_deletes_def Let_def split: option.splits)

lemma cleanup_plugins_interleaved:
  assumes g: "sessions_get st callId = Some (r, s)"
  shows "relay_deletes (fst (two_cleanups Rev_plugins A1_B1_A2_B2 st callId)) callId
           = Suc (Suc (relay_deletes st callId))"
proof -
  from cleanupSession_plugins_first [OF g] obtain st1 where
    c1: "cleanupSession Rev_plugins st callId = (st1, Await (Pend_cleanup callId))"
    and g1: "sessions_get st1 callId = Some (r, heap st1 r)"
    and d1: "relay_deletes st1 callId = Suc (relay_deletes st callId)"
    by blast
  from cleanupSession_plugins_first [OF g1] obtain st2 where
    c2: "cleanupSession Rev_plugins st1 callId = (st2, Await (Pend_cleanup callId))"
    and d2: "relay_deletes st2 callId = Suc (relay_deletes st1 callId)"
    by blast
  have r: "relay_deletes (cleanupSession_resume Rev_plugins x callId) callId = relay_deletes x callId"
    for x
    by (simp add: relay_deletes_def cleanupSession_resume_def)
  show ?thesis
    by (simp add: two_cleanups_def c1 c2 finish_cleanup_def r d1 d2)
qed

lemma one_dialog_get: "sessions_get (one_dialog s) (Some ''c1'') = Some (0, s)"
  by (simp add: sessions_get_def one_dialog_def sessions_set_new_def empty_gateway_def)

lemma one_dialog_sent: "sent (one_dialog s) = []"
  by (simp add: one_dialog_def sessions_set_new_def empty_gateway_def)

lemma one_dialog_relay_deletes: "relay_deletes (one_dialog s) callId = 0"
  by (simp add: relay_deletes_def one_dialog_def sessions_set_new_def empty_gateway_def)

text \<open>
  C1 at the failing input, in \<open>plugins/sipGateway.js\<close>: the store holds the established
  incoming dialog \<open>c1\<close>, and a second cleanup starts while the first one awaits the
  relay.  The relay is asked twice to delete the call.  (In \<open>part_000\<close> every order of
  the two invocations gives one delete and one removal: \<open>cleanup_part0_idempotent\<close>.)
\<close>

theorem cleanup_plugins_race:
  "relay_deletes
     (fst (two_cleanups Rev_plugins A1_B1_A2_B2 (one_dialog (incoming_session Established))
             (Some ''c1''))) (Some ''c1'') = 2
   \<and> relay_deletes
     (fst (two_cleanups Rev_part0 A1_B1_A2_B2 (one_dialog (incoming_session Established))
             (Some ''c1''))) (Some ''c1'') = 1"
proof -
  have t: "state (incoming_session Established) \<noteq> Terminating"
    by (simp add: incoming_session_def)
  from cleanup_part0_idempotent [OF one_dialog_get t, where sch = A1_B1_A2_B2]
  have "relay_deletes
     (fst (two_cleanups Rev_part0 A1_B1_A2_B2 (one_dialog (incoming_session Established))
             (Some ''c1''))) (Some ''c1'') = 1"
    by (auto simp: one_dialog_relay_deletes)
  then show ?thesis
    using cleanup_plugins_interleaved [OF one_dialog_get, where s = "incoming_session Established"]
    by (simp add: one_dialog_relay_deletes)
qed

section \<open>Facts about \<open>hangup\<close>\<close>

text \<open>
  In \<open>part_000\<close> the hangup does what C5 says: a BYE in the states \<open>established\<close> and
  \<open>answered\<close> only, with the sequence number incremented first, sent to the configured
  server for an outgoing dialog and to the address the INVITE came from for an incoming
  one; a CANCEL on the branch of the INVITE for an outgoing dialog in the state
  \<open>calling\<close>; nothing in any other case.
\<close>

lemma cleanupSession_sent:
  "sent (fst (cleanupSession rv st callId)) = sent st"
  by (simp add: cleanupSession_def heap_upd_def delete_invite_txn_def relay_call_def Let_def
      split: option.splits revision.splits prod.splits)

lemma cleanupSession_cseq:
  "cseq (heap (fst (cleanupSession rv st callId)) r) = cseq (heap st r)"
  by (simp add: cleanupSession_def heap_upd_def delete_invite_txn_def relay_call_def Let_def
      split: option.splits revision.splits prod.splits)

lemma hangup_part0_behaviour:
  assumes g: "sessions_get st callId = Some (r, s)"
  shows "(state s = Established \<or> state s = Answered) \<Longrightarrow> direction s = Outgoing \<Longrightarrow>
           \<exists>m. sent (fst (hangup Rev_part0 cfg st callId rnd))
                  = sent st @ [Sent_request m (sipServerHost cfg) (sipServerPort cfg)]
              \<and> rq_method m = ''BYE''
              \<and> rq_cseq m = Some (decimal (Suc (cseq s)) @ '' BYE'')"
    and "(state s = Established \<or> state s = Answered) \<Longrightarrow> direction s = Incoming \<Longrightarrow>
         sipRequest s = Some q \<Longrightarrow> rq_from q = Some f \<Longrightarrow> rinfo s = Some ri \<Longrightarrow>
           \<exists>m. sent (fst (hangup Rev_part0 cfg st callId rnd))
                  = sent st @ [Sent_request m (address ri) (port ri)]
              \<and> rq_method m = ''BYE''
              \<and> rq_cseq m = Some (decimal (Suc (cseq s)) @ '' BYE'')"
    and "state s = Calling \<Longrightarrow> direction s = Outgoing \<Longrightarrow>
           \<exists>m. sent (fst (hangup Rev_part0 cfg st callId rnd))
                  = sent st @ [Sent_request m (sipServerHost cfg) (sipServerPort cfg)]
              \<and> rq_method m = ''CANCEL''
              \<and> rq_via m = ViaStr (local_via cfg (str_undefined (viaBranch s)))"
    and "state s \<noteq> Established \<Longrightarrow> state s \<noteq> Answered \<Longrightarrow>
         \<not> (state s = Calling \<and> direction s = Outgoing) \<Longrightarrow>
           sent (fst (hangup Rev_part0 cfg st callId rnd)) = sent st"
    and "(state s = Established \<or> state s = Answered) \<Longrightarrow>
           cseq (heap (fst (hangup Rev_part0 cfg st callId rnd)) r) = Suc (cseq s)"
  using g
  by (auto simp: hangup_def hangup_part0_def cleanupSession_sent cleanupSession_cseq Let_def
      send_request_def new_request_def heap_upd_def sessions_get_def
      split: option.splits)

lemma requests_sent_append:
  "sent st' = sent st @ [Sent_request m host p] \<Longrightarrow>
   requests_sent st' = requests_sent st @ [(rq_method m, host, p)]"
  by (simp add: requests_sent_def request_dest_def map_filter_def)

lemma hangup_plugins_requests:
  "sessions_get st callId = Some (r, s) \<Longrightarrow>
   requests_sent (fst (hangup Rev_plugins cfg st callId rnd))
     = requests_sent st @ [(''BYE'', sipServerHost cfg, sipServerPort cfg)]"
  by (simp add: hangup_def hangup_plugins_def Let_def requests_sent_def cleanupSession_sent
      send_request_def heap_upd_def new_request_def request_dest_def map_filter_def)

lemma hangup_part0_requests:
  assumes g: "sessions_get st callId = Some (r, s)"
  shows "(state s = Established \<or> state s = Answered) \<Longrightarrow> direction s = Outgoing \<Longrightarrow>
           requests_sent (fst (hangup Rev_part0 cfg st callId rnd))
             = requests_sent st @ [(''BYE'', sipServerHost cfg, sipServerPort cfg)]"
    and "(state s = Established \<or> state s = Answered) \<Longrightarrow> direction s = Incoming \<Longrightarrow>
         sipRequest s = Some q \<Longrightarrow> rq_from q = Some f \<Longrightarrow> rinfo s = Some ri \<Longrightarrow>
           requests_sent (fst (hangup Rev_part0 cfg st callId rnd))
             = requests_sent st @ [(''BYE'', address ri, port ri)]"
    and "state s = Calling \<Longrightarrow> direction s = Outgoing \<Longrightarrow>
           requests_sent (fst (hangup Rev_part0 cfg st callId rnd))
             = requests_sent st @ [(''CANCEL'', sipServerHost cfg, sipServerPort cfg)]"
    and "state s \<noteq> Established \<Longrightarrow> state s \<noteq> Answered \<Longrightarrow>
         \<not> (state s = Calling \<and> direction s = Outgoing) \<Longrightarrow>
           requests_sent (fst (hangup Rev_part0 cfg st callId rnd)) = requests_sent st"
  using g
  by (auto simp: hangup_def hangup_part0_def cleanupSession_sent Let_def send_request_def
      new_request_def heap_upd_def sessions_get_def requests_sent_def request_dest_def
      map_filter_def split: option.splits)

text \<open>
  C5 at the failing inputs, in \<open>plugins/sipGateway.js\<close> with the upstream server at
  10.0.0.2:5060.  The BYE of an established incoming dialog whose INVITE came from
  192.168.1.127:5060 goes to the upstream server; an incoming dialog that is only
  ringing gets a BYE; an outgoing dialog in the state \<open>calling\<close> gets a BYE and no CANCEL.
  The same three dialogs in \<open>part_000\<close>: the BYE goes to 192.168.1.127:5060, nothing is
  sent, and a CANCEL is sent.
\<close>

theorem hangup_plugins_divergence:
  "requests_sent (fst (hangup Rev_plugins example_cfg (one_dialog (incoming_session Established))
        (Some ''c1'') (\<lambda>i. 0))) = [(''BYE'', ''10.0.0.2'', 5060)]
   \<and> rinfo (incoming_session Established) = Some \<lparr>address = ''192.168.1.127'', port = 5060\<rparr>
   \<and> requests_sent (fst (hangup Rev_plugins example_cfg (one_dialog (incoming_session Ringing))
        (Some ''c1'') (\<lambda>i. 0))) = [(''BYE'', ''10.0.0.2'', 5060)]
   \<and> requests_sent (fst (hangup Rev_plugins example_cfg (one_dialog (outgoing_session Calling))
        (Some ''c1'') (\<lambda>i. 0))) = [(''BYE'', ''10.0.0.2'', 5060)]
   \<and> requests_sent (fst (hangup Rev_part0 example_cfg (one_dialog (incoming_session Established))
        (Some ''c1'') (\<lambda>i. 0))) = [(''BYE'', ''192.168.1.127'', 5060)]
   \<and> requests_sent (fst (hangup Rev_part0 example_cfg (one_dialog (incoming_session Ringing))
        (Some ''c1'') (\<lambda>i. 0))) = []
   \<and> requests_sent (fst (hangup Rev_part0 example_cfg (one_dialog (outgoing_session Calling))
        (Some ''c1'') (\<lambda>i. 0))) = [(''CANCEL'', ''10.0.0.2'', 5060)]"
proof -
  have e: "requests_sent (one_dialog s) = []" for s
    by (simp add: requests_sent_def one_dialog_sent map_filter_def)
  have c: "sipServerHost example_cfg = ''10.0.0.2''" "sipServerPort example_cfg = 5060"
    by (simp_all add: example_cfg_def)
  have i: "direction (incoming_session ds) = Incoming" "state (incoming_session ds) = ds"
    "sipRequest (incoming_session ds) = Some (example_invite ''c1'')"
    "rinfo (incoming_session ds) = Some \<lparr>address = ''192.168.1.127'', port = 5060\<rparr>" for ds
    by (simp_all add: incoming_session_def example_rinfo_def)
  have f: "rq_from (example_invite ''c1'') = Some ''<sip:bob@192.168.1.127>;tag=b1''"
    by (simp add: example_invite_def)
  have o: "direction (outgoing_session ds) = Outgoing" "state (outgoing_session ds) = ds" for ds
    by (simp_all add: outgoing_session_def)
  show ?thesis
    using hangup_plugins_requests [OF one_dialog_get, where s = "incoming_session Established"
        and cfg = example_cfg and rnd = "\<lambda>i. 0"]
      hangup_plugins_requests [OF one_dialog_get, where s = "incoming_session Ringing"
        and cfg = example_cfg and rnd = "\<lambda>i. 0"]
      hangup_plugins_requests [OF one_dialog_get, where s = "outgoing_session Calling"
        and cfg = example_cfg and rnd = "\<lambda>i. 0"]
      hangup_part0_requests(2) [OF one_dialog_get, where s = "incoming_session Established"
        and q = "example_invite ''c1''" and f = "''<sip:bob@192.168.1.127>;tag=b1''"
        and ri = "\<lparr>address = ''192.168.1.127'', port = 5060\<rparr>" and cfg = example_cfg
        and rnd = "\<lambda>i. 0"]
      hangup_part0_requests(4) [OF one_dialog_get, where s = "incoming_session Ringing"
        and cfg = example_cfg and rnd = "\<lambda>i. 0"]
      hangup_part0_requests(3) [OF one_dialog_get, where s = "outgoing_session Calling"
        and cfg = example_cfg and rnd = "\<lambda>i. 0"]
    by (simp add: e c i f o)
qed

section \<open>Facts about \<open>sendResponse\<close> and the server transactions\<close>

lemma sendResponse_ok:
  "rq_to request \<noteq> None \<or> (stat \<noteq> 180 \<and> stat \<noteq> 200) \<Longrightarrow>
   \<exists>st' resp. sendResponse cfg st request stat reas ri body = Inr st'
     \<and> sent st' = sent st @ [Sent_response resp (address ri) (port ri)]
     \<and> status resp = stat \<and> reason resp = reas
     \<and> rs_body resp = (if truthy body then body else None)
     \<and> sessions st' = sessions st \<and> heap st' = heap st \<and> next_ref st' = next_ref st
     \<and> relay_log st' = relay_log st \<and> emitted st' = emitted st
     \<and> retriedInvites st' = retriedInvites st
     \<and> inviteTransactions st' =
         (case map_of (inviteTransactions st) (invite_key request) of
            None \<Rightarrow> inviteTransactions st
          | Some txn \<Rightarrow>
              AList.update (invite_key request)
                (txn\<lparr>lastResponse := Some \<lparr>lr_status = stat, lr_reason = reas, lr_body = body\<rparr>\<rparr>)
                (inviteTransactions st))"
  by (auto simp: sendResponse_def Let_def split: option.splits)

lemma sendResponse_throws:
  "sendResponse cfg st request stat reas ri body = Inl e \<Longrightarrow>
   rq_to request = None \<and> (stat = 180 \<or> stat = 200)"
  by (auto simp: sendResponse_def Let_def split: option.splits if_splits)

lemma remembered_after_sendResponse:
  assumes k: "map_of (inviteTransactions st) (invite_key request) = Some txn"
    and s: "sendResponse cfg st request stat reas ri body = Inr st'"
  shows "map_of (inviteTransactions st') (invite_key request)
           = Some (txn\<lparr>lastResponse := Some \<lparr>lr_status = stat, lr_reason = reas, lr_body = body\<rparr>\<rparr>)"
    and "remembered_status st' request = Some stat"
proof -
  from s have "rq_to request \<noteq> None \<or> (stat \<noteq> 180 \<and> stat \<noteq> 200)"
    by (auto simp: sendResponse_def split: if_splits)
  from sendResponse_ok [OF this, of cfg st reas ri body] s k
  have i: "inviteTransactions st' =
      AList.update (invite_key request)
        (txn\<lparr>lastResponse := Some \<lparr>lr_status = stat, lr_reason = reas, lr_body = body\<rparr>\<rparr>)
        (inviteTransactions st)"
    by auto
  show "map_of (inviteTransactions st') (invite_key request)
           = Some (txn\<lparr>lastResponse := Some \<lparr>lr_status = stat, lr_reason = reas, lr_body = body\<rparr>\<rparr>)"
    by (simp add: i update_conv')
  then show "remembered_status st' request = Some stat"
    by (simp add: remembered_status_def)
qed

lemma not_remembered_without_transaction:
  assumes k: "map_of (inviteTransactions st) (invite_key request) = None"
    and s: "sendResponse cfg st request stat reas ri body = Inr st'"
  shows "inviteTransactions st' = inviteTransactions st"
proof -
  from s have "rq_to request \<noteq> None \<or> (stat \<noteq> 180 \<and> stat \<noteq> 200)"
    by (auto simp: sendResponse_def split: if_splits)
  from sendResponse_ok [OF this, of cfg st reas ri body] s k show ?thesis by auto
qed

lemma handleInvite_known_key:
  assumes k: "map_of (inviteTransactions st) (invite_key request) = Some txn"
    and l: "lastResponse txn = Some lr"
  shows "sessions (fst (handleInvite rv cfg st request ri rnd)) = sessions st"
    and "next_ref (fst (handleInvite rv cfg st request ri rnd)) = next_ref st"
    and "relay_log (fst (handleInvite rv cfg st request ri rnd)) = relay_log st"
    and "rq_to request \<noteq> None \<or> (lr_status lr \<noteq> 180 \<and> lr_status lr \<noteq> 200) \<Longrightarrow>
         snd (handleInvite rv cfg st request ri rnd) = Done
         \<and> (\<exists>resp. sent (fst (handleInvite rv cfg st request ri rnd))
                      = sent st @ [Sent_response resp (address ri) (port ri)]
               \<and> status resp = lr_status lr \<and> reason resp = lr_reason lr
               \<and> rs_body resp = (if truthy (lr_body lr) then lr_body lr else None))"
proof -
  let ?st1 = "st\<lparr>retriedInvites := Suc (retriedInvites st)\<rparr>"
  have h: "handleInvite rv cfg st request ri rnd =
      (case sendResponse cfg ?st1 request (lr_status lr) (lr_reason lr) ri (lr_body lr) of
         Inl e \<Rightarrow> (?st1, Threw e)
       | Inr st2 \<Rightarrow> (st2, Done))"
    by (simp add: handleInvite_def Let_def k l)
  show "sessions (fst (handleInvite rv cfg st request ri rnd)) = sessions st"
    and "next_ref (fst (handleInvite rv cfg st request ri rnd)) = next_ref st"
    and "relay_log (fst (handleInvite rv cfg st request ri rnd)) = relay_log st"
    unfolding h
    by (auto simp: sendResponse_def Let_def split: option.splits sum.splits)
  assume a: "rq_to request \<noteq> None \<or> (lr_status lr \<noteq> 180 \<and> lr_status lr \<noteq> 200)"
  from sendResponse_ok [OF a, of cfg ?st1 "lr_reason lr" ri "lr_body lr"]
  show "snd (handleInvite rv cfg st request ri rnd) = Done
         \<and> (\<exists>resp. sent (fst (handleInvite rv cfg st request ri rnd))
                      = sent st @ [Sent_response resp (address ri) (port ri)]
               \<and> status resp = lr_status lr \<and> reason resp = lr_reason lr
               \<and> rs_body resp = (if truthy (lr_body lr) then lr_body lr else None))"
    unfolding h by auto
qed

text \<open>
  C3, as the code has it.  An INVITE whose key names a server transaction with a
  remembered response creates no dialog (the store, the heap counter and the relay log
  are as before), and, provided it has a \<open>To\<close> header or the remembered status is
  neither 180 nor 200, it is answered with the remembered status, reason and body.
  The remembered response of a key is written by every \<open>sendResponse\<close> for that key
  while the server transaction exists, whatever the status, each call replacing what
  the previous one left; without a server transaction nothing is remembered.
\<close>

theorem server_transaction_replay:
  "(map_of (inviteTransactions st) (invite_key request) = Some txn \<and> lastResponse txn = Some lr
      \<longrightarrow> sessions (fst (handleInvite rv cfg st request ri rnd)) = sessions st
        \<and> next_ref (fst (handleInvite rv cfg st request ri rnd)) = next_ref st
        \<and> relay_log (fst (handleInvite rv cfg st request ri rnd)) = relay_log st
        \<and> (rq_to request \<noteq> None \<or> (lr_status lr \<noteq> 180 \<and> lr_status lr \<noteq> 200)
             \<longrightarrow> snd (handleInvite rv cfg st request ri rnd) = Done
               \<and> (\<exists>resp. sent (fst (handleInvite rv cfg st request ri rnd))
                            = sent st @ [Sent_response resp (address ri) (port ri)]
                     \<and> status resp = lr_status lr \<and> reason resp = lr_reason lr
                     \<and> rs_body resp = (if truthy (lr_body lr) then lr_body lr else None))))
   \<and> (map_of (inviteTransactions st) (invite_key request) = Some txn
        \<and> sendResponse cfg st request stat reas ri body = Inr st'
      \<longrightarrow> map_of (inviteTransactions st') (invite_key request)
            = Some (txn\<lparr>lastResponse := Some \<lparr>lr_status = stat, lr_reason = reas, lr_body = body\<rparr>\<rparr>))
   \<and> (map_of (inviteTransactions st) (invite_key request) = None
        \<and> sendResponse cfg st request stat reas ri body = Inr st'
      \<longrightarrow> inviteTransactions st' = inviteTransactions st)"
  using handleInvite_known_key [of st request txn lr rv cfg ri rnd]
    remembered_after_sendResponse(1) [of st request txn cfg stat reas ri body st']
    not_remembered_without_transaction [of st request cfg stat reas ri body st']
  by blast

theorem server_transaction_replay_witness:
  "map_of (inviteTransactions (remembering (example_invite ''c1''))) (invite_key (example_invite ''c1''))
     = Some \<lparr>txn_callId = Some ''c1'', lastResponse = Some ringing_response\<rparr>
   \<and> rq_to (example_invite ''c1'') \<noteq> None
   \<and> sessions (fst (handleInvite Rev_plugins example_cfg (remembering (example_invite ''c1''))
                      (example_invite ''c1'') example_rinfo (\<lambda>i. 0))) = []
   \<and> snd (handleInvite Rev_plugins example_cfg (remembering (example_invite ''c1''))
            (example_invite ''c1'') example_rinfo (\<lambda>i. 0)) = Done
   \<and> statuses_sent (fst (handleInvite Rev_plugins example_cfg (remembering (example_invite ''c1''))
                      (example_invite ''c1'') example_rinfo (\<lambda>i. 0))) = [180]"
proof -
  let ?q = "example_invite ''c1''"
  let ?txn = "\<lparr>txn_callId = Some ''c1'', lastResponse = Some ringing_response\<rparr>"
  have k: "map_of (inviteTransactions (remembering ?q)) (invite_key ?q) = Some ?txn"
    by (simp add: remembering_def empty_gateway_def example_invite_def)
  have l: "lastResponse ?txn = Some ringing_response" by simp
  have t: "rq_to ?q \<noteq> None" by (simp add: example_invite_def)
  have e: "sessions (remembering ?q) = []" "sent (remembering ?q) = []"
    by (simp_all add: remembering_def empty_gateway_def)
  have s: "lr_status ringing_response = 180" by (simp add: ringing_response_def)
  let ?h = "handleInvite Rev_plugins example_cfg (remembering ?q) ?q example_rinfo (\<lambda>i. 0)"
  from server_transaction_replay [of "remembering ?q" ?q ?txn ringing_response Rev_plugins
      example_cfg example_rinfo "\<lambda>i. 0"] k l
  have a: "sessions (fst ?h) = sessions (remembering ?q)"
    and b: "rq_to ?q \<noteq> None \<or> (lr_status ringing_response \<noteq> 180 \<and> lr_status ringing_response \<noteq> 200)
             \<longrightarrow> snd ?h = Done
               \<and> (\<exists>resp. sent (fst ?h)
                            = sent (remembering ?q) @ [Sent_response resp (address example_rinfo) (port example_rinfo)]
                     \<and> status resp = lr_status ringing_response \<and> reason resp = lr_reason ringing_response
                     \<and> rs_body resp = (if truthy (lr_body ringing_response) then lr_body ringing_response else None))"
    by blast+
  from b t obtain resp where d: "snd ?h = Done"
    and r: "sent (fst ?h) = sent (remembering ?q) @ [Sent_response resp (address example_rinfo) (port example_rinfo)]"
      "status resp = lr_status ringing_response"
    by blast
  have "statuses_sent (fst ?h) = [180]"
    by (simp add: statuses_sent_def response_status_def map_filter_def r e s)
  with k t a d e show ?thesis by simp
qed

text \<open>
  C3 as stated fails on its last part.  The server transaction of an INVITE, just
  created, remembers nothing; the \<open>100 Trying\<close> that \<open>handleIncomingInvite\<close> sends first
  is remembered (status 100, below 180); the \<open>180 Ringing\<close> replaces it; and the
  \<open>200 OK\<close> of the answer replaces the 180, so that the remembered response is not the
  one of the first \<open>sendResponse\<close> at a status of 180 or more.
\<close>

theorem remembered_response_counterexample:
  "remembered_status (fresh_transaction (example_invite ''c1'')) (example_invite ''c1'') = None
   \<and> (\<exists>st1 st2 st3.
        sendResponse example_cfg (fresh_transaction (example_invite ''c1'')) (example_invite ''c1'')
          100 ''Trying'' example_rinfo None = Inr st1
        \<and> remembered_status st1 (example_invite ''c1'') = Some 100
        \<and> sendResponse example_cfg st1 (example_invite ''c1'') 180 ''Ringing'' example_rinfo None
            = Inr st2
        \<and> remembered_status st2 (example_invite ''c1'') = Some 180
        \<and> sendResponse example_cfg st2 (example_invite ''c1'') 200 ''OK'' example_rinfo
            (Some example_sdp) = Inr st3
        \<and> remembered_status st3 (example_invite ''c1'') = Some 200)"
proof -
  let ?q = "example_invite ''c1''"
  have t: "rq_to ?q \<noteq> None" by (simp add: example_invite_def)
  have k0: "map_of (inviteTransactions (fresh_transaction ?q)) (invite_key ?q)
      = Some \<lparr>txn_callId = rq_call_id ?q, lastResponse = None\<rparr>"
    by (simp add: fresh_transaction_def empty_gateway_def)
  have r0: "remembered_status (fresh_transaction ?q) ?q = None"
    by (simp add: remembered_status_def k0)
  from sendResponse_ok [of ?q 100 example_cfg "fresh_transaction ?q" "''Trying''" example_rinfo None] t
  obtain st1 where s1: "sendResponse example_cfg (fresh_transaction ?q) ?q 100 ''Trying''
      example_rinfo None = Inr st1"
    by blast
  note m1 = remembered_after_sendResponse [OF k0 s1]
  from sendResponse_ok [of ?q 180 example_cfg st1 "''Ringing''" example_rinfo None] t
  obtain st2 where s2: "sendResponse example_cfg st1 ?q 180 ''Ringing'' example_rinfo None = Inr st2"
    by blast
  note m2 = remembered_after_sendResponse [OF m1(1) s2]
  from sendResponse_ok [of ?q 200 example_cfg st2 "''OK''" example_rinfo "Some example_sdp"] t
  obtain st3 where s3: "sendResponse example_cfg st2 ?q 200 ''OK'' example_rinfo
      (Some example_sdp) = Inr st3"
    by blast
  note m3 = remembered_after_sendResponse [OF m2(1) s3]
  from r0 s1 m1(2) s2 m2(2) s3 m3(2) show ?thesis by blast
qed

section \<open>Facts about the admission of calls\<close>

text \<open>
  Both \<open>handleIncomingInvite\<close> and \<open>makeCallToSip\<close> compare the size of the store with
  \<open>maxConcurrentSessions\<close> before they await the relay's offer, and insert the dialog after
  it.  At the cap an INVITE is answered 503 and \<open>makeCallToSip\<close> throws, and neither
  creates a dialog; below the cap an INVITE that is admitted and completed before
  anything else happens adds one dialog.
\<close>

lemma relay_ok_reply:
  "relay_ok (relay_outcome rv ok_reply) = Inr \<lparr>reply_result = ''ok'', reply_sdp = Some example_sdp\<rparr>"
  by (simp add: relay_ok_def relay_outcome_def retry_unfold ok_reply_def)

lemma handleNATForRequest_fields:
  "rq_from (handleNATForRequest q ri) = rq_from q"
  "rq_to (handleNATForRequest q ri) = rq_to q"
  "rq_call_id (handleNATForRequest q ri) = rq_call_id q"
  "rq_body (handleNATForRequest q ri) = rq_body q"
  "rq_method (handleNATForRequest q ri) = rq_method q"
  by (simp_all add: handleNATForRequest_def split: via_hdr.splits list.splits)

lemma validate_example_sdp: "validateSDP rv (SdpString example_sdp) = Inr ()"
  by (simp add: validateSDP_def example_sdp_def some_line_def startsWith_def is_space_def Let_def)

lemma handleIncomingInvite_admits:
  assumes "rq_from q \<noteq> None" "length (sessions st) < maxConcurrentSessions cfg"
    "validateSDP rv (SdpString (rq_body q)) = Inr ()"
  shows "\<exists>op t u v. handleIncomingInvite rv cfg st q ri k rnd
           = (relay_call st op, Await (Pend_incoming q ri k (rq_call_id q) t u v))"
  using assms
  by (auto simp: handleIncomingInvite_def Let_def split: option.splits)

lemma handleIncomingInvite_at_cap:
  assumes "rq_from q \<noteq> None" "maxConcurrentSessions cfg \<le> length (sessions st)"
  shows "\<exists>st'. handleIncomingInvite rv cfg st q ri k rnd = (st', Done)
           \<and> statuses_sent st' = statuses_sent st @ [503]
           \<and> sessions st' = sessions st \<and> next_ref st' = next_ref st
           \<and> relay_log st' = relay_log st"
proof -
  from sendResponse_ok [of q 503 cfg st "''Service Unavailable''" ri None]
  obtain st' resp where s: "sendResponse cfg st q 503 ''Service Unavailable'' ri None = Inr st'"
    and r: "sent st' = sent st @ [Sent_response resp (address ri) (port ri)]" "status resp = 503"
      "sessions st' = sessions st" "next_ref st' = next_ref st" "relay_log st' = relay_log st"
    by auto
  have "handleIncomingInvite rv cfg st q ri k rnd = (st', Done)"
    using assms s by (auto simp: handleIncomingInvite_def Let_def split: option.splits)
  then show ?thesis using r
    by (simp add: statuses_sent_def response_status_def map_filter_def)
qed

lemma makeCallToSip_at_cap:
  "maxConcurrentSessions cfg \<le> length (sessions st) \<Longrightarrow>
   makeCallToSip rv cfg st cl uri sdp now r1 r2 rnd1 rnd2 rnd3
     = (st, Threw (Error ''Maximum concurrent sessions reached''))"
  by (simp add: makeCallToSip_def)

lemma length_update_new:
  "map_of al k = None \<Longrightarrow> length (AList.update k v al) = Suc (length al)"
  by (induction al) (auto split: if_splits)

lemma length_update_le: "length (AList.update k v al) \<le> Suc (length al)"
  by (induction al) auto

lemma map_fst_update_present:
  "map_of al k = Some x \<Longrightarrow> map fst (AList.update k y al) = map fst al"
  by (induction al) (auto split: if_splits)

lemma sendResponse_keys:
  "sendResponse cfg st q stat reas ri body = Inr st' \<Longrightarrow>
   map fst (inviteTransactions st') = map fst (inviteTransactions st)"
  by (auto simp: sendResponse_def Let_def map_fst_update_present split: option.splits if_splits)

lemma handleIncomingInvite_resume_ok:
  assumes t: "rq_to q \<noteq> None"
  shows "\<exists>st'. handleIncomingInvite_resume rv cfg st q ri k c t' u v ok_reply rnd = (st', Done)
           \<and> sessions st' = AList.update c (next_ref st) (sessions st)
           \<and> next_ref st' = Suc (next_ref st)
           \<and> statuses_sent st' = statuses_sent st @ [100, 180]
           \<and> map fst (inviteTransactions st')
               = map fst (AList.update k \<lparr>txn_callId = c, lastResponse = None\<rparr>
                            (inviteTransactions st))
           \<and> direction (heap st' (next_ref st)) = Incoming
           \<and> state (heap st' (next_ref st)) = Ringing
           \<and> sipRequest (heap st' (next_ref st)) = Some q
           \<and> rinfo (heap st' (next_ref st)) = Some ri"
proof -
  let ?st1 = "st\<lparr>inviteTransactions :=
                AList.update k \<lparr>txn_callId = c, lastResponse = None\<rparr> (inviteTransactions st)\<rparr>"
  let ?s = "\<lparr>direction = Incoming, webrtcClientId = None, webrtcUserId = None,
                        fromTag = t', toTag = Some (generateTag rv rnd), state = Ringing, targetUri = None,
                        cseq = 1, viaBranch = None, sipRequest = Some q, rinfo = Some ri,
                        transactionKey = Some k, from_uri = Some u,
                        retransmit200Count = 0, retransmit200Interval = 0, maxRetransmits = 0,
                        ackReceived = False, retransmit200Timer = None, ackTimeoutTimer = None\<rparr>"
  let ?st2 = "sessions_set_new ?st1 c ?s"
  let ?st3 = "?st2\<lparr>activeSessions := activeSessions ?st2 + 1, totalCalls := Suc (totalCalls ?st2)\<rparr>"
  from sendResponse_ok [of q 100 cfg ?st3 "''Trying''" ri None]
  obtain st4 r4 where s4: "sendResponse cfg ?st3 q 100 ''Trying'' ri None = Inr st4"
    and e4: "sent st4 = sent ?st3 @ [Sent_response r4 (address ri) (port ri)]" "status r4 = 100"
      "sessions st4 = sessions ?st3" "next_ref st4 = next_ref ?st3" "heap st4 = heap ?st3"
      "map fst (inviteTransactions st4) = map fst (inviteTransactions ?st3)"
    by (auto simp: sendResponse_keys)
  from sendResponse_ok [of q 180 cfg st4 "''Ringing''" ri None] t
  obtain st5 r5 where s5: "sendResponse cfg st4 q 180 ''Ringing'' ri None = Inr st5"
    and e5: "sent st5 = sent st4 @ [Sent_response r5 (address ri) (port ri)]" "status r5 = 180"
      "sessions st5 = sessions st4" "next_ref st5 = next_ref st4" "heap st5 = heap st4"
      "map fst (inviteTransactions st5) = map fst (inviteTransactions st4)"
    by (auto simp: sendResponse_keys)
  have "handleIncomingInvite_resume rv cfg st q ri k c t' u v ok_reply rnd
      = (emit st5 (Ev_incoming_sip_call c u v (Some example_sdp)), Done)"
    unfolding handleIncomingInvite_resume_def relay_ok_reply Let_def sum.case s4 s5
    by simp
  then show ?thesis
    using e4 e5
    by (simp add: emit_def sessions_set_new_def statuses_sent_def response_status_def
        map_filter_def)
qed


lemma handleIncomingMessage_invite_admits:
  assumes "rq_method q = ''INVITE''" "rq_from q \<noteq> None"
    "length (sessions st) < maxConcurrentSessions cfg"
    "validateSDP rv (SdpString (rq_body q)) = Inr ()"
    "map_of (inviteTransactions st) (invite_key (handleNATForRequest q ri)) = None"
    "map_of (sessions st) (rq_call_id q) = None"
  shows "\<exists>op k t u v. handleIncomingMessage rv cfg st q ri rnd
           = (relay_call st op,
              Await (Pend_incoming (handleNATForRequest q ri) ri k (rq_call_id q) t u v))"
proof -
  let ?q = "handleNATForRequest q ri"
  have "handleIncomingMessage rv cfg st q ri rnd
      = handleIncomingInvite rv cfg st ?q ri (invite_key ?q) rnd"
    using assms
    by (simp add: handleIncomingMessage_def handleRequest_def handleInvite_def Let_def
        handleNATForRequest_fields sessions_get_def)
  with handleIncomingInvite_admits [of ?q st cfg rv ri "invite_key ?q" rnd] assms
  show ?thesis by (auto simp: handleNATForRequest_fields)
qed

lemma two_invites_add_two:
  assumes m: "rq_method q1 = ''INVITE''" "rq_method q2 = ''INVITE''"
    and f: "rq_from q1 \<noteq> None" "rq_from q2 \<noteq> None"
    and t: "rq_to q1 \<noteq> None" "rq_to q2 \<noteq> None"
    and v: "validateSDP rv (SdpString (rq_body q1)) = Inr ()"
      "validateSDP rv (SdpString (rq_body q2)) = Inr ()"
    and i: "map_of (inviteTransactions st) (invite_key (handleNATForRequest q1 ri)) = None"
      "map_of (inviteTransactions st) (invite_key (handleNATForRequest q2 ri)) = None"
    and n: "map_of (sessions st) (rq_call_id q1) = None" "map_of (sessions st) (rq_call_id q2) = None"
    and d: "rq_call_id q1 \<noteq> rq_call_id q2"
    and c: "length (sessions st) < maxConcurrentSessions cfg"
  shows "length (sessions (two_invites rv cfg st q1 q2 ri)) = length (sessions st) + 2"
proof -
  from handleIncomingMessage_invite_admits [OF m(1) f(1) c v(1) i(1) n(1), of "\<lambda>i. 0"]
  obtain op1 k1 t1 u1 v1 where
    h1: "handleIncomingMessage rv cfg st q1 ri (\<lambda>i. 0)
           = (relay_call st op1,
              Await (Pend_incoming (handleNATForRequest q1 ri) ri k1 (rq_call_id q1) t1 u1 v1))"
    by blast
  let ?s1 = "relay_call st op1"
  have p1: "sessions ?s1 = sessions st" "inviteTransactions ?s1 = inviteTransactions st"
    by (simp_all add: relay_call_def)
  from handleIncomingMessage_invite_admits [of q2 ?s1 cfg rv ri "\<lambda>i. 0"] m f c v n i p1
  obtain op2 k2 t2 u2 v2 where
    h2: "handleIncomingMessage rv cfg ?s1 q2 ri (\<lambda>i. 0)
           = (relay_call ?s1 op2,
              Await (Pend_incoming (handleNATForRequest q2 ri) ri k2 (rq_call_id q2) t2 u2 v2))"
    by auto
  let ?s2 = "relay_call ?s1 op2"
  have p2: "sessions ?s2 = sessions st" by (simp add: relay_call_def)
  from handleIncomingInvite_resume_ok [of "handleNATForRequest q1 ri" rv cfg ?s2 ri k1
      "rq_call_id q1" t1 u1 v1 "\<lambda>i. 0"] t
  obtain s3 where
    r3: "handleIncomingInvite_resume rv cfg ?s2 (handleNATForRequest q1 ri) ri k1 (rq_call_id q1)
           t1 u1 v1 ok_reply (\<lambda>i. 0) = (s3, Done)"
    and e3: "sessions s3 = AList.update (rq_call_id q1) (next_ref ?s2) (sessions ?s2)"
    by (auto simp: handleNATForRequest_fields)
  from handleIncomingInvite_resume_ok [of "handleNATForRequest q2 ri" rv cfg s3 ri k2
      "rq_call_id q2" t2 u2 v2 "\<lambda>i. 0"] t
  obtain s4 where
    r4: "handleIncomingInvite_resume rv cfg s3 (handleNATForRequest q2 ri) ri k2 (rq_call_id q2)
           t2 u2 v2 ok_reply (\<lambda>i. 0) = (s4, Done)"
    and e4: "sessions s4 = AList.update (rq_call_id q2) (next_ref s3) (sessions s3)"
    by (auto simp: handleNATForRequest_fields)
  have w: "two_invites rv cfg st q1 q2 ri = s4"
    by (simp add: two_invites_def h1 h2 resume_ok_def resume_def r3 r4)
  have "map_of (sessions s3) (rq_call_id q2) = None"
    using n d by (simp add: e3 p2 update_conv')
  then have "length (sessions s4) = Suc (length (sessions s3))"
    by (simp add: e4 length_update_new)
  moreover have "length (sessions s3) = Suc (length (sessions st))"
    using n by (simp add: e3 p2 length_update_new)
  ultimately show ?thesis by (simp add: w)
qed

lemma handleIncomingMessage_invite_at_cap:
  assumes "rq_method q = ''INVITE''" "rq_from q \<noteq> None"
    "maxConcurrentSessions cfg \<le> length (sessions st)"
    "map_of (inviteTransactions st) (invite_key (handleNATForRequest q ri)) = None"
    "map_of (sessions st) (rq_call_id q) = None"
  shows "\<exists>st'. handleIncomingMessage rv cfg st q ri rnd = (st', Done)
           \<and> statuses_sent st' = statuses_sent st @ [503]
           \<and> sessions st' = sessions st \<and> next_ref st' = next_ref st
           \<and> relay_log st' = relay_log st"
proof -
  let ?q = "handleNATForRequest q ri"
  have "handleIncomingMessage rv cfg st q ri rnd
      = handleIncomingInvite rv cfg st ?q ri (invite_key ?q) rnd"
    using assms
    by (simp add: handleIncomingMessage_def handleRequest_def handleInvite_def Let_def
        handleNATForRequest_fields sessions_get_def)
  with handleIncomingInvite_at_cap [of ?q cfg st rv ri "invite_key ?q" rnd] assms
  show ?thesis by (auto simp: handleNATForRequest_fields)
qed

lemma invite_key_call_id:
  "invite_key (handleNATForRequest q ri) = str_undefined (rq_call_id q) @ ''-'' @
     str_undefined (rq_cseq (handleNATForRequest q ri)) @ ''-''
       @ str_null (request_branch (handleNATForRequest q ri))"
  by (simp add: invite_key_def handleNATForRequest_fields)

lemma one_invite_admits:
  assumes m: "rq_method q = ''INVITE''" and f: "rq_from q \<noteq> None" and t: "rq_to q \<noteq> None"
    and v: "validateSDP rv (SdpString (rq_body q)) = Inr ()"
    and i: "map_of (inviteTransactions st) (invite_key (handleNATForRequest q ri)) = None"
    and n: "map_of (sessions st) (rq_call_id q) = None"
    and c: "length (sessions st) < maxConcurrentSessions cfg"
  shows "sessions (one_invite rv cfg st q ri) = AList.update (rq_call_id q) (next_ref st) (sessions st)"
    and "map fst (inviteTransactions (one_invite rv cfg st q ri))
           = map fst (inviteTransactions st) @ [invite_key (handleNATForRequest q ri)]"
proof -
  let ?q = "handleNATForRequest q ri"
  have h: "handleIncomingMessage rv cfg st q ri (\<lambda>i. 0)
      = handleIncomingInvite rv cfg st ?q ri (invite_key ?q) (\<lambda>i. 0)"
    using m i n
    by (simp add: handleIncomingMessage_def handleRequest_def handleInvite_def Let_def
        handleNATForRequest_fields sessions_get_def)
  from handleIncomingInvite_admits [of ?q st cfg rv ri "invite_key ?q" "\<lambda>i. 0"] f c v
  obtain op1 t1 u1 v1 where
    h1: "handleIncomingInvite rv cfg st ?q ri (invite_key ?q) (\<lambda>i. 0)
           = (relay_call st op1, Await (Pend_incoming ?q ri (invite_key ?q) (rq_call_id q) t1 u1 v1))"
    by (auto simp: handleNATForRequest_fields)
  let ?s1 = "relay_call st op1"
  from handleIncomingInvite_resume_ok [of ?q rv cfg ?s1 ri "invite_key ?q" "rq_call_id q" t1 u1 v1
      "\<lambda>i. 0"] t
  obtain s2 where
    r2: "handleIncomingInvite_resume rv cfg ?s1 ?q ri (invite_key ?q) (rq_call_id q)
           t1 u1 v1 ok_reply (\<lambda>i. 0) = (s2, Done)"
    and e2: "sessions s2 = AList.update (rq_call_id q) (next_ref ?s1) (sessions ?s1)"
      "map fst (inviteTransactions s2)
         = map fst (AList.update (invite_key ?q) \<lparr>txn_callId = rq_call_id q, lastResponse = None\<rparr>
                      (inviteTransactions ?s1))"
    by (auto simp: handleNATForRequest_fields)
  have w: "one_invite rv cfg st q ri = s2"
    by (simp add: one_invite_def h h1 resume_ok_def resume_def r2)
  show "sessions (one_invite rv cfg st q ri) = AList.update (rq_call_id q) (next_ref st) (sessions st)"
    by (simp add: w e2 relay_call_def)
  have "map fst (AList.update k x al) = map fst al @ [k]" if "map_of al k = None" for k x
    and al :: "(string \<times> invite_txn) list"
    using that by (induction al) (auto split: if_splits)
  with i show "map fst (inviteTransactions (one_invite rv cfg st q ri))
           = map fst (inviteTransactions st) @ [invite_key (handleNATForRequest q ri)]"
    by (simp add: w e2 relay_call_def)
qed

lemma one_invite_at_cap:
  assumes "rq_method q = ''INVITE''" "rq_from q \<noteq> None"
    "maxConcurrentSessions cfg \<le> length (sessions st)"
    "map_of (inviteTransactions st) (invite_key (handleNATForRequest q ri)) = None"
    "map_of (sessions st) (rq_call_id q) = None"
  shows "sessions (one_invite rv cfg st q ri) = sessions st"
    and "statuses_sent (one_invite rv cfg st q ri) = statuses_sent st @ [503]"
  using handleIncomingMessage_invite_at_cap [OF assms, of rv "\<lambda>i. 0"]
  by (auto simp: one_invite_def resume_ok_def)

text \<open>
  C4 at the failing input, in both revisions, with \<open>maxConcurrentSessions = 1\<close> and an
  empty store: two INVITEs with the call identifiers \<open>c1\<close> and \<open>c2\<close> arrive before the relay
  has answered the first offer.  Both pass the check, and the store ends with two
  dialogs.  (When the first INVITE is completed before the second arrives, the second is
  refused and the store holds one dialog.)
\<close>

theorem admission_race_exceeds_cap:
  "maxConcurrentSessions example_cfg = 1
   \<and> length (sessions (two_invites Rev_plugins example_cfg empty_gateway
        (example_invite ''c1'') (example_invite ''c2'') example_rinfo)) = 2
   \<and> length (sessions (two_invites Rev_part0 example_cfg empty_gateway
        (example_invite ''c1'') (example_invite ''c2'') example_rinfo)) = 2
   \<and> length (sessions (one_invite Rev_plugins example_cfg
        (one_invite Rev_plugins example_cfg empty_gateway (example_invite ''c1'') example_rinfo)
        (example_invite ''c2'') example_rinfo)) = 1"
proof -
  have q: "rq_method (example_invite c) = ''INVITE''" "rq_from (example_invite c) \<noteq> None"
    "rq_to (example_invite c) \<noteq> None" "rq_call_id (example_invite c) = Some c"
    "rq_body (example_invite c) = example_sdp" for c
    by (simp_all add: example_invite_def)
  have e: "inviteTransactions empty_gateway = []" "sessions empty_gateway = []"
    "next_ref empty_gateway = 0"
    by (simp_all add: empty_gateway_def)
  have k: "invite_key (handleNATForRequest (example_invite ''c1'') example_rinfo)
      \<noteq> invite_key (handleNATForRequest (example_invite ''c2'') example_rinfo)"
    by (simp add: invite_key_call_id q str_undefined_def)
  have m: "maxConcurrentSessions example_cfg = 1" by (simp add: example_cfg_def)
  have "length (sessions (two_invites rv example_cfg empty_gateway
        (example_invite ''c1'') (example_invite ''c2'') example_rinfo)) = 2" for rv
    using two_invites_add_two [where ?q1.0 = "example_invite ''c1''"
        and ?q2.0 = "example_invite ''c2''" and rv = rv and st = empty_gateway
        and cfg = example_cfg and ri = example_rinfo]
    by (simp add: q e m validate_example_sdp)
  moreover
  let ?a = "one_invite Rev_plugins example_cfg empty_gateway (example_invite ''c1'') example_rinfo"
  have a: "sessions ?a = [(Some ''c1'', 0)]"
    "map fst (inviteTransactions ?a)
       = [invite_key (handleNATForRequest (example_invite ''c1'') example_rinfo)]"
    using one_invite_admits [where q = "example_invite ''c1''" and rv = Rev_plugins
        and st = empty_gateway and ri = example_rinfo and cfg = example_cfg]
    by (simp_all add: q e m validate_example_sdp)
  have "map_of (inviteTransactions ?a)
      (invite_key (handleNATForRequest (example_invite ''c2'') example_rinfo)) = None"
    using a(2) k by (metis list.set(1) list.simps(15) map_of_eq_None_iff set_map singletonD)
  then have "length (sessions (one_invite Rev_plugins example_cfg ?a (example_invite ''c2'')
      example_rinfo)) = 1"
    using one_invite_at_cap(1) [where q = "example_invite ''c2''" and cfg = example_cfg
        and st = ?a and ri = example_rinfo and rv = Rev_plugins]
    by (simp add: q a(1) m)
  ultimately show ?thesis using m by simp
qed

section \<open>Facts about the status codes of responses\<close>

lemma list_all_update:
  "list_all P al \<Longrightarrow> P (k, v) \<Longrightarrow> list_all P (AList.update k v al)"
  by (induction al) auto

lemma list_all_delete: "list_all P al \<Longrightarrow> list_all P (AList.delete k al)"
  by (induction al) auto

lemma list_all_map_of:
  "list_all P al \<Longrightarrow> map_of al k = Some v \<Longrightarrow> P (k, v)"
  by (induction al) (auto split: if_splits)

lemma statuses_within_frame:
  "sent st' = sent st \<Longrightarrow> inviteTransactions st' = inviteTransactions st \<Longrightarrow>
   statuses_within st' = statuses_within st"
  by (simp add: statuses_within_def statuses_sent_def)

lemma within_sendResponse:
  assumes w: "statuses_within st" and o: "status_ok stat"
    and s: "sendResponse cfg st q stat reas ri body = Inr st'"
  shows "statuses_within st'"
proof -
  from s have "rq_to q \<noteq> None \<or> (stat \<noteq> 180 \<and> stat \<noteq> 200)"
    by (auto simp: sendResponse_def split: if_splits)
  from sendResponse_ok [OF this, of cfg st reas ri body] s
  obtain resp where e: "sent st' = sent st @ [Sent_response resp (address ri) (port ri)]"
      "status resp = stat"
    and i: "inviteTransactions st' =
         (case map_of (inviteTransactions st) (invite_key q) of
            None \<Rightarrow> inviteTransactions st
          | Some txn \<Rightarrow>
              AList.update (invite_key q)
                (txn\<lparr>lastResponse := Some \<lparr>lr_status = stat, lr_reason = reas, lr_body = body\<rparr>\<rparr>)
                (inviteTransactions st))"
    by auto
  have "list_all status_ok (statuses_sent st')"
    using w o by (simp add: statuses_within_def statuses_sent_def e map_filter_def response_status_def)
  moreover have "list_all (\<lambda>kt. case lastResponse (snd kt) of None \<Rightarrow> True
                         | Some lr \<Rightarrow> status_ok (lr_status lr)) (inviteTransactions st')"
    using w o by (auto simp: statuses_within_def i list_all_update split: option.splits)
  ultimately show ?thesis by (simp add: statuses_within_def)
qed

lemma within_sendResponseD:
  "sendResponse cfg st q stat reas ri body = Inr st' \<Longrightarrow>
   statuses_within st \<and> status_ok stat \<longrightarrow> statuses_within st'"
  using within_sendResponse by blast

lemma within_simps [simp]:
  "statuses_within (emit st ev) = statuses_within st"
  "statuses_within (relay_call st op) = statuses_within st"
  "statuses_within (heap_upd st r f) = statuses_within st"
  "statuses_within (sessions_set_new st c s) = statuses_within st"
  "statuses_within (send_request st m h p) = statuses_within st"
  "statuses_within (st\<lparr>retriedInvites := a\<rparr>) = statuses_within st"
  "statuses_within (st\<lparr>reInvites := a\<rparr>) = statuses_within st"
  "statuses_within (st\<lparr>totalCalls := a\<rparr>) = statuses_within st"
  "statuses_within (st\<lparr>failedCalls := a\<rparr>) = statuses_within st"
  "statuses_within (st\<lparr>activeSessions := b\<rparr>) = statuses_within st"
  by (simp_all add: statuses_within_def statuses_sent_def emit_def relay_call_def heap_upd_def
      sessions_set_new_def send_request_def map_filter_def response_status_def)

lemma within_delete_invite_txn:
  "statuses_within st \<Longrightarrow> statuses_within (delete_invite_txn st k)"
  by (simp add: statuses_within_def delete_invite_txn_def statuses_sent_def list_all_delete)

lemma within_cleanupSession:
  "statuses_within st \<Longrightarrow> statuses_within (fst (cleanupSession rv st c))"
  by (auto simp: cleanupSession_def Let_def within_delete_invite_txn
      split: option.splits revision.splits)

lemma within_cleanupSession_resume:
  "statuses_within (cleanupSession_resume rv st c) = statuses_within st"
  by (simp add: statuses_within_def statuses_sent_def cleanupSession_resume_def)

lemma status_ok_codes [simp]:
  "status_ok 100" "status_ok 180" "status_ok 200" "status_ok 404" "status_ok 480"
  "status_ok 481" "status_ok 487" "status_ok 500" "status_ok 501" "status_ok 503" "status_ok 603"
  by (simp_all add: status_ok_def code_statuses_def)

lemma within_reply_500:
  "statuses_within st \<Longrightarrow> statuses_within (fst (reply_500 cfg st q ri))"
  by (auto simp: reply_500_def split: sum.splits dest!: within_sendResponseD)

lemma within_rejectCall:
  "statuses_within st \<Longrightarrow> status_ok code \<Longrightarrow>
   statuses_within (fst (rejectCall rv cfg st c code reas))"
  by (auto simp: rejectCall_def split: option.splits sum.splits
      intro!: within_cleanupSession dest!: within_sendResponseD)

lemma within_handleAck:
  "statuses_within st \<Longrightarrow> statuses_within (handleAck st q)"
  by (auto simp: handleAck_def within_delete_invite_txn split: option.splits)

lemma within_handleBye:
  "statuses_within st \<Longrightarrow> statuses_within (fst (handleBye rv cfg st q ri))"
  by (auto simp: handleBye_def Let_def split: option.splits sum.splits revision.splits
      intro!: within_cleanupSession dest!: within_sendResponseD)

lemma within_handleCancel:
  "statuses_within st \<Longrightarrow> statuses_within (fst (handleCancel rv cfg st q ri))"
  by (auto simp: handleCancel_def Let_def split: option.splits sum.splits revision.splits
      intro!: within_cleanupSession dest!: within_sendResponseD)

lemma within_handleInfo:
  "statuses_within st \<Longrightarrow> statuses_within (fst (handleInfo cfg st q ri))"
  by (auto simp: handleInfo_def split: sum.splits dest!: within_sendResponseD)


lemma within_handleIncomingInvite:
  "statuses_within st \<Longrightarrow> statuses_within (fst (handleIncomingInvite rv cfg st q ri k rnd))"
  by (auto simp: handleIncomingInvite_def Let_def within_reply_500
      split: option.splits sum.splits dest!: within_sendResponseD)

lemma within_new_txn:
  "statuses_within st \<Longrightarrow>
   statuses_within (st\<lparr>inviteTransactions :=
      AList.update k \<lparr>txn_callId = c, lastResponse = None\<rparr> (inviteTransactions st)\<rparr>)"
  by (simp add: statuses_within_def statuses_sent_def list_all_update)

lemma within_handleIncomingInvite_resume:
  assumes w: "statuses_within st"
  shows "statuses_within (fst (handleIncomingInvite_resume rv cfg st q ri k c t u v attempt rnd))"
proof (cases "relay_ok (relay_outcome rv attempt)")
  case (Inl e)
  then show ?thesis using w by (simp add: handleIncomingInvite_resume_def within_reply_500)
next
  case (Inr reply)
  let ?st1 = "st\<lparr>inviteTransactions :=
                AList.update k \<lparr>txn_callId = c, lastResponse = None\<rparr> (inviteTransactions st)\<rparr>"
  have w1: "statuses_within ?st1" using w by (rule within_new_txn)
  show ?thesis
    using Inr w1
    by (auto simp: handleIncomingInvite_resume_def Let_def within_reply_500
        split: sum.splits dest!: within_sendResponseD)
qed

lemma within_handleReInvite:
  "statuses_within st \<Longrightarrow> statuses_within (fst (handleReInvite rv cfg st q ri r))"
  by (auto simp: handleReInvite_def within_reply_500 split: sum.splits)

lemma within_handleReInvite_resume:
  "statuses_within st \<Longrightarrow>
   statuses_within (fst (handleReInvite_resume rv cfg st q ri c r attempt))"
  by (auto simp: handleReInvite_resume_def within_reply_500
      split: sum.splits dest!: within_sendResponseD)

lemma within_remembered:
  "statuses_within st \<Longrightarrow> map_of (inviteTransactions st) k = Some txn \<Longrightarrow>
   lastResponse txn = Some lr \<Longrightarrow> status_ok (lr_status lr)"
  by (auto simp: statuses_within_def dest!: list_all_map_of)

lemma within_handleInvite:
  assumes w: "statuses_within st"
  shows "statuses_within (fst (handleInvite rv cfg st q ri rnd))"
proof (cases "map_of (inviteTransactions st) (invite_key q)")
  case None
  then show ?thesis
    using w
    by (auto simp: handleInvite_def Let_def within_handleIncomingInvite within_handleReInvite
        split: option.splits)
next
  case (Some txn)
  show ?thesis
  proof (cases "lastResponse txn")
    case None
    then show ?thesis using w Some by (simp add: handleInvite_def Let_def)
  next
    case (Some lr)
    from within_remembered [OF w \<open>map_of (inviteTransactions st) (invite_key q) = Some txn\<close> Some]
    have "status_ok (lr_status lr)" .
    then show ?thesis
      using w Some \<open>map_of (inviteTransactions st) (invite_key q) = Some txn\<close>
      by (auto simp: handleInvite_def Let_def split: sum.splits dest!: within_sendResponseD)
  qed
qed

lemma within_handleRequest:
  "statuses_within st \<Longrightarrow> statuses_within (fst (handleRequest rv cfg st q ri rnd))"
  by (auto simp: handleRequest_def within_handleInvite within_handleAck within_handleBye
      within_handleCancel within_handleInfo split: sum.splits dest!: within_sendResponseD)

lemma within_answer_failed:
  "statuses_within st \<Longrightarrow> statuses_within (fst (answer_failed rv st c e))"
  using within_cleanupSession [of st rv c]
  by (auto simp: answer_failed_def split: prod.splits outcome.splits)

lemma within_answerSipCall:
  "statuses_within st \<Longrightarrow> statuses_within (fst (answerSipCall rv st c u sdp))"
  by (auto simp: answerSipCall_def Let_def within_answer_failed split: option.splits sum.splits)

lemma within_answerSipCall_resume:
  "statuses_within st \<Longrightarrow>
   statuses_within (fst (answerSipCall_resume rv cfg st c r u attempt now))"
  by (auto simp: answerSipCall_resume_def within_answer_failed
      split: option.splits sum.splits dest!: within_sendResponseD)

lemma within_retransmit200OK:
  "statuses_within st \<Longrightarrow> statuses_within (fst (retransmit200OK cfg st r q sdp now))"
  by (auto simp: retransmit200OK_def Let_def split: option.splits sum.splits
      dest!: within_sendResponseD)

lemma within_ackTimeout:
  "statuses_within st \<Longrightarrow> statuses_within (fst (ackTimeout rv st r c u))"
  by (auto simp: ackTimeout_def Let_def intro!: within_cleanupSession)

lemma within_makeCallToSip:
  "statuses_within st \<Longrightarrow>
   statuses_within (fst (makeCallToSip rv cfg st cl uri sdp now r1 r2 rnd1 rnd2 rnd3))"
  by (auto simp: makeCallToSip_def makeCall_failed_def Let_def split: sum.splits)

lemma within_makeCallToSip_resume:
  "statuses_within st \<Longrightarrow>
   statuses_within (fst (makeCallToSip_resume rv cfg st cl uri c t b cs attempt))"
  by (auto simp: makeCallToSip_resume_def makeCall_failed_def Let_def split: sum.splits)

lemma within_hangup:
  "statuses_within st \<Longrightarrow> statuses_within (fst (hangup rv cfg st c rnd))"
  by (auto simp: hangup_def hangup_plugins_def hangup_part0_def Let_def
      split: option.splits revision.splits intro!: within_cleanupSession)

lemma within_resume:
  "statuses_within st \<Longrightarrow> statuses_within (fst (resume rv cfg st p attempt rnd now))"
  by (cases p)
     (simp_all add: resume_def within_cleanupSession_resume within_handleIncomingInvite_resume
        within_handleReInvite_resume within_makeCallToSip_resume within_answerSipCall_resume)

lemma within_step:
  "statuses_within st \<Longrightarrow> statuses_within (fst (step rv cfg st e))"
  by (cases e)
     (simp_all add: step_def handleIncomingMessage_def within_handleRequest within_resume
        within_makeCallToSip within_answerSipCall within_hangup hub_incoming_sip_call_def
        hub_reject_def within_rejectCall within_retransmit200OK within_ackTimeout)

lemma within_run:
  "statuses_within st \<Longrightarrow> statuses_within (run rv cfg st es)"
  by (induction es arbitrary: st) (simp_all add: within_step)

lemma within_empty: "statuses_within empty_gateway"
  by (simp add: statuses_within_def statuses_sent_def empty_gateway_def map_filter_def)

text \<open>
  C7, as the code has it.  Whatever reaches the gateway after its construction, in
  whatever order (request datagrams, answers of the media relay to suspended methods,
  the calls that \<open>signaling-server.js\<close> makes, timers), every response it sends has a
  status code among 100, 180, 200, 404, 480, 481, 487, 500, 501, 503 and 603.  Both
  revisions; 481 is sent by \<open>plugins/sipGateway.js\<close> only.
\<close>

theorem emitted_status_codes:
  "list_all (\<lambda>n. n \<in> set code_statuses) (statuses_sent (run rv cfg empty_gateway es))"
proof -
  have "status_ok = (\<lambda>n. n \<in> set code_statuses)"
    by (rule ext) (simp add: status_ok_def)
  with within_run [OF within_empty, of rv cfg es] show ?thesis
    by (simp add: statuses_within_def)
qed

lemma rejectCall_sends:
  assumes g: "sessions_get st c = Some (r, s)" and d: "direction s = Incoming"
    and q: "sipRequest s = Some q" and i: "rinfo s = Some ri"
    and t: "rq_to q \<noteq> None \<or> (code \<noteq> 180 \<and> code \<noteq> 200)"
  shows "statuses_sent (fst (rejectCall rv cfg st c code reas)) = statuses_sent st @ [code]"
proof -
  from sendResponse_ok [OF t, of cfg st reas ri None]
  obtain st1 resp where s: "sendResponse cfg st q code reas ri None = Inr st1"
    and e: "sent st1 = sent st @ [Sent_response resp (address ri) (port ri)]" "status resp = code"
    by blast
  have "rejectCall rv cfg st c code reas = cleanupSession rv st1 c"
    by (simp add: rejectCall_def g d q i s)
  then show ?thesis
    by (simp add: statuses_sent_def cleanupSession_sent e map_filter_def response_status_def)
qed

lemma one_invite_session:
  assumes m: "rq_method q = ''INVITE''" and f: "rq_from q \<noteq> None" and t: "rq_to q \<noteq> None"
    and v: "validateSDP rv (SdpString (rq_body q)) = Inr ()"
    and i: "map_of (inviteTransactions st) (invite_key (handleNATForRequest q ri)) = None"
    and n: "map_of (sessions st) (rq_call_id q) = None"
    and c: "length (sessions st) < maxConcurrentSessions cfg"
  shows "\<exists>s. sessions_get (one_invite rv cfg st q ri) (rq_call_id q) = Some (next_ref st, s)
           \<and> direction s = Incoming \<and> state s = Ringing
           \<and> sipRequest s = Some (handleNATForRequest q ri) \<and> rinfo s = Some ri"
    and "statuses_sent (one_invite rv cfg st q ri) = statuses_sent st @ [100, 180]"
proof -
  let ?q = "handleNATForRequest q ri"
  have h: "handleIncomingMessage rv cfg st q ri (\<lambda>i. 0)
      = handleIncomingInvite rv cfg st ?q ri (invite_key ?q) (\<lambda>i. 0)"
    using m i n
    by (simp add: handleIncomingMessage_def handleRequest_def handleInvite_def Let_def
        handleNATForRequest_fields sessions_get_def)
  from handleIncomingInvite_admits [of ?q st cfg rv ri "invite_key ?q" "\<lambda>i. 0"] f c v
  obtain op1 t1 u1 v1 where
    h1: "handleIncomingInvite rv cfg st ?q ri (invite_key ?q) (\<lambda>i. 0)
           = (relay_call st op1, Await (Pend_incoming ?q ri (invite_key ?q) (rq_call_id q) t1 u1 v1))"
    by (auto simp: handleNATForRequest_fields)
  let ?s1 = "relay_call st op1"
  from handleIncomingInvite_resume_ok [of ?q rv cfg ?s1 ri "invite_key ?q" "rq_call_id q" t1 u1 v1
      "\<lambda>i. 0"] t
  obtain s2 where
    r2: "handleIncomingInvite_resume rv cfg ?s1 ?q ri (invite_key ?q) (rq_call_id q)
           t1 u1 v1 ok_reply (\<lambda>i. 0) = (s2, Done)"
    and e2: "sessions s2 = AList.update (rq_call_id q) (next_ref ?s1) (sessions ?s1)"
      "statuses_sent s2 = statuses_sent ?s1 @ [100, 180]"
      "direction (heap s2 (next_ref ?s1)) = Incoming" "state (heap s2 (next_ref ?s1)) = Ringing"
      "sipRequest (heap s2 (next_ref ?s1)) = Some ?q" "rinfo (heap s2 (next_ref ?s1)) = Some ri"
    by (auto simp: handleNATForRequest_fields)
  have w: "one_invite rv cfg st q ri = s2"
    by (simp add: one_invite_def h h1 resume_ok_def resume_def r2)
  have x: "next_ref ?s1 = next_ref st" "statuses_sent ?s1 = statuses_sent st"
    by (simp_all add: relay_call_def statuses_sent_def)
  show "\<exists>s. sessions_get (one_invite rv cfg st q ri) (rq_call_id q) = Some (next_ref st, s)
           \<and> direction s = Incoming \<and> state s = Ringing
           \<and> sipRequest s = Some (handleNATForRequest q ri) \<and> rinfo s = Some ri"
    using e2 x by (simp add: w sessions_get_def update_conv')
  show "statuses_sent (one_invite rv cfg st q ri) = statuses_sent st @ [100, 180]"
    using e2 x by (simp add: w)
qed

text \<open>
  C7 as stated fails.  An INVITE for a user that no browser peer has registered is
  admitted (100, 180) and then rejected by the listener of \<open>incoming-sip-call\<close> with 404,
  in both revisions; a BYE for an unknown call is answered 481 by
  \<open>plugins/sipGateway.js\<close>.  Neither code is in the list of the specification.
\<close>

theorem emitted_status_codes_counterexample:
  "statuses_sent (fst (step Rev_plugins example_cfg
       (one_invite Rev_plugins example_cfg empty_gateway (example_invite ''c1'') example_rinfo)
       (In_hub_incoming (Some ''c1'') False False))) = [100, 180, 404]
   \<and> statuses_sent (fst (step Rev_part0 example_cfg
       (one_invite Rev_part0 example_cfg empty_gateway (example_invite ''c1'') example_rinfo)
       (In_hub_incoming (Some ''c1'') False False))) = [100, 180, 404]
   \<and> 404 \<notin> set spec_statuses
   \<and> statuses_sent (fst (step Rev_plugins example_cfg empty_gateway
       (In_message ((example_invite ''c1'')\<lparr>rq_method := ''BYE''\<rparr>) example_rinfo (\<lambda>i. 0))))
       = [481]
   \<and> 481 \<notin> set spec_statuses"
proof -
  have q: "rq_method (example_invite c) = ''INVITE''" "rq_from (example_invite c) \<noteq> None"
    "rq_to (example_invite c) \<noteq> None" "rq_call_id (example_invite c) = Some c"
    "rq_body (example_invite c) = example_sdp" for c
    by (simp_all add: example_invite_def)
  have e: "inviteTransactions empty_gateway = []" "sessions empty_gateway = []"
    "next_ref empty_gateway = 0" "statuses_sent empty_gateway = []" "sent empty_gateway = []"
    by (simp_all add: empty_gateway_def statuses_sent_def map_filter_def)
  have m: "maxConcurrentSessions example_cfg = 1" by (simp add: example_cfg_def)
  have a: "statuses_sent (fst (step rv example_cfg
       (one_invite rv example_cfg empty_gateway (example_invite ''c1'') example_rinfo)
       (In_hub_incoming (Some ''c1'') False False))) = [100, 180, 404]" for rv
  proof -
    let ?a = "one_invite rv example_cfg empty_gateway (example_invite ''c1'') example_rinfo"
    from one_invite_session [where q = "example_invite ''c1''" and rv = rv
        and st = empty_gateway and ri = example_rinfo and cfg = example_cfg]
    obtain s where g: "sessions_get ?a (Some ''c1'') = Some (0, s)"
      and d: "direction s = Incoming"
      and r: "sipRequest s = Some (handleNATForRequest (example_invite ''c1'') example_rinfo)"
        "rinfo s = Some example_rinfo"
      and o: "statuses_sent ?a = [100, 180]"
      by (auto simp: q e m validate_example_sdp)
    have t: "rq_to (handleNATForRequest (example_invite ''c1'') example_rinfo) \<noteq> None
        \<or> ((404::nat) \<noteq> 180 \<and> (404::nat) \<noteq> 200)"
      by simp
    from rejectCall_sends [OF g d r t, of rv example_cfg "''Not Found''"] o
    show ?thesis by (simp add: step_def hub_incoming_sip_call_def)
  qed
  let ?bye = "(example_invite ''c1'')\<lparr>rq_method := ''BYE''\<rparr>"
  have b: "statuses_sent (fst (step Rev_plugins example_cfg empty_gateway
       (In_message ?bye example_rinfo (\<lambda>i. 0)))) = [481]"
  proof -
    let ?q = "handleNATForRequest ?bye example_rinfo"
    have g: "sessions_get empty_gateway c = None" for c
      by (simp add: sessions_get_def e)
    from sendResponse_ok [of ?q 481 example_cfg empty_gateway "''Call/Transaction Does Not Exist''"
        example_rinfo None]
    obtain st1 resp where s: "sendResponse example_cfg empty_gateway ?q 481
        ''Call/Transaction Does Not Exist'' example_rinfo None = Inr st1"
      and x: "sent st1 = sent empty_gateway @ [Sent_response resp (address example_rinfo) (port example_rinfo)]"
        "status resp = 481"
      by auto
    have "step Rev_plugins example_cfg empty_gateway (In_message ?bye example_rinfo (\<lambda>i. 0))
        = (st1, Done)"
      by (simp add: step_def handleIncomingMessage_def handleRequest_def handleNATForRequest_fields
          handleBye_def Let_def g s)
    then show ?thesis
      by (simp add: statuses_sent_def x e map_filter_def response_status_def)
  qed
  have n: "404 \<notin> set spec_statuses" "481 \<notin> set spec_statuses"
    by (simp_all add: spec_statuses_def)
  from a [of Rev_plugins] a [of Rev_part0] b n show ?thesis by simp
qed

end
